theory Spec2Isabelle
  imports Complex_Main "HOL-Library.AList" "HOL-Library.Char_ord" "HOL-Library.List_Lexorder"
begin

section \<open>Conventions of the embedding\<close>

text \<open>
  The development embeds two Python modules: \<^verbatim>\<open>quantum_orchestrator.py\<close> (the task queue,
  the task pipeline and the adaptive state) and \<^verbatim>\<open>trinity_api_server.py\<close> (request routing
  and the response cache).

  \<^item> A Python \<^verbatim>\<open>float\<close> is a real number that the rounding function \<open>rnd\<close> leaves fixed.
    Every arithmetic operation of the source is the exact operation followed by \<open>rnd\<close>, and
    every literal is rounded. Theorems about the arithmetic assume only \<open>rounding_ok rnd\<close>
    (monotone, idempotent, exact at 0 and 1), which both IEEE round-to-nearest on the
    values that occur here and exact arithmetic (\<open>rnd = (\<lambda>x. x)\<close>) satisfy.
  \<^item> \<^verbatim>\<open>datetime.now()\<close> and \<^verbatim>\<open>uuid.uuid4()\<close> read the environment: the functions take the
    value read as an argument (\<open>now\<close>, \<open>request_id\<close>, \<open>sid\<close>).
  \<^item> A leading underscore of a Python name is dropped (\<^verbatim>\<open>_execute_ai_task\<close> is
    \<open>execute_ai_task\<close>).
  \<^item> Writes to the SQLite database and the log records of \<^verbatim>\<open>quantum_orchestrator.py\<close> are
    not modelled: the source swallows every exception they raise and never reads them
    back. The log records of \<^verbatim>\<open>trinity_api_server.py\<close> are modelled, without the pictograph
    that opens a message; the texts of its responses are modelled without it too.
  \<^item> A string is a list of characters, each a code point below 256.
\<close>

type_synonym rounding = "real \<Rightarrow> real"

definition rounding_ok :: "rounding \<Rightarrow> bool" where
  "rounding_ok rnd \<longleftrightarrow>
     (\<forall>x y. x \<le> y \<longrightarrow> rnd x \<le> rnd y) \<and> (\<forall>x. rnd (rnd x) = rnd x) \<and> rnd 0 = 0 \<and> rnd 1 = 1"

definition flit :: "rounding \<Rightarrow> real \<Rightarrow> real" where
  "flit rnd c = rnd c"

definition fadd :: "rounding \<Rightarrow> real \<Rightarrow> real \<Rightarrow> real" where
  "fadd rnd a b = rnd (a + b)"

definition fsub :: "rounding \<Rightarrow> real \<Rightarrow> real \<Rightarrow> real" where
  "fsub rnd a b = rnd (a - b)"

definition fmul :: "rounding \<Rightarrow> real \<Rightarrow> real \<Rightarrow> real" where
  "fmul rnd a b = rnd (a * b)"

datatype exn =
    AttributeError string
  | KeyError string
  | ValueError string

section \<open>quantum\_orchestrator.py: data model\<close>

datatype AIModel = CLAUDE_SONNET | GPT4_TURBO | GEMINI_PRO | LOCAL_LLAMA | TRINITY_HYBRID

text \<open>\<^verbatim>\<open>neural_activity\<close> is a dict in insertion order: an association list.\<close>

record QuantumState =
  consciousness_level :: real
  quantum_coherence :: real
  neural_activity :: "(string \<times> real) list"
  memory_coherence :: real
  learning_velocity :: real
  timestamp :: nat
  state_id :: string

text \<open>
  \<^verbatim>\<open>Dict[str, Any]\<close> payloads are JSON values; an object keeps its fields in insertion
  order. Numbers are integers (no claim depends on a payload number).
\<close>

datatype json =
    JNull
  | JBool bool
  | JInt int
  | JStr string
  | JArr "json list"
  | JObj "(string \<times> json) list"

text \<open>
  Python does not enforce the annotations \<^verbatim>\<open>task_id: str\<close> and
  \<^verbatim>\<open>model_preference: AIModel\<close>: either attribute may hold \<^verbatim>\<open>None\<close>, which is how a task
  without identifier, or without a model hint, reaches \<^verbatim>\<open>submit_task\<close>. Dictionaries keyed
  by \<^verbatim>\<open>task_id\<close> accept \<^verbatim>\<open>None\<close> as a key (a string and \<^verbatim>\<open>None\<close> are hashable, so a write under
  such a key does not raise). \<open>status\<close> is the string the source assigns.
\<close>

record AITask =
  task_id :: "string option"
  task_type :: string
  priority :: int
  input_data :: "(string \<times> json) list"
  model_preference :: "AIModel option"
  deadline :: "nat option"
  dependencies :: "string list"
  metadata :: "(string \<times> json) list"
  status :: string
  created_at :: nat

text \<open>
  The dict a backend returns: the keys \<^verbatim>\<open>quantum_coherence\<close> and \<^verbatim>\<open>consciousness_level\<close>
  are present only in the answer of the hybrid backend.
\<close>

record inference_result =
  model :: string
  output_text :: string
  confidence :: real
  result_quantum_coherence :: "real option"
  result_consciousness_level :: "real option"

text \<open>
  An entry of \<^verbatim>\<open>result_store\<close>: either \<^verbatim>\<open>{"result", "completed_at", "quantum_state"}\<close> or
  \<^verbatim>\<open>{"error", "failed_at"}\<close>.
\<close>

datatype stored_result =
    Completed inference_result nat QuantumState
  | Failed string nat

record orchestrator =
  task_queue :: "AITask list"
  result_store :: "string option \<rightharpoonup> stored_result"
  active_tasks :: "(string option \<times> AITask) list"
  quantum_state :: "QuantumState option"
  is_running :: bool

section \<open>quantum\_orchestrator.py: operations\<close>

definition init_orchestrator :: orchestrator where
  "init_orchestrator =
     \<lparr>task_queue = [], result_store = Map.empty, active_tasks = [],
      quantum_state = None, is_running = False\<rparr>"

definition initialize_quantum_state :: "rounding \<Rightarrow> nat \<Rightarrow> string \<Rightarrow> QuantumState" where
  "initialize_quantum_state rnd now sid =
     \<lparr>consciousness_level = flit rnd 0.7,
      quantum_coherence = flit rnd 0.8,
      neural_activity =
        [(''prefrontal_cortex'', flit rnd 0.6),
         (''hippocampus'', flit rnd 0.4),
         (''amygdala'', flit rnd 0.3),
         (''neural_networks'', flit rnd 0.8)],
      memory_coherence = flit rnd 0.75,
      learning_velocity = flit rnd 0.1,
      timestamp = now,
      state_id = sid\<rparr>"

text \<open>\<^verbatim>\<open>start_orchestrator\<close> up to the point where it enters the orchestration loop.\<close>

definition start_orchestrator :: "rounding \<Rightarrow> nat \<Rightarrow> string \<Rightarrow> orchestrator \<Rightarrow> orchestrator" where
  "start_orchestrator rnd now sid s =
     s\<lparr>is_running := True, quantum_state := Some (initialize_quantum_state rnd now sid)\<rparr>"

text \<open>The message of the \<^verbatim>\<open>AttributeError\<close> that an attribute access on \<^verbatim>\<open>None\<close> raises.\<close>

definition none_has_no_attribute :: "string \<Rightarrow> exn" where
  "none_has_no_attribute a =
     AttributeError ([CHR 0x27] @ ''NoneType'' @ [CHR 0x27] @ '' object has no attribute ''
       @ [CHR 0x27] @ a @ [CHR 0x27])"

fun str_exn :: "exn \<Rightarrow> string" where
  "str_exn (AttributeError m) = m"
| "str_exn (KeyError k) = [CHR 0x27] @ k @ [CHR 0x27]"
| "str_exn (ValueError m) = m"

definition trinity_hybrid_inference :: "orchestrator \<Rightarrow> AITask \<Rightarrow> exn + inference_result" where
  "trinity_hybrid_inference s task =
     (case quantum_state s of
        None \<Rightarrow> Inl (none_has_no_attribute ''quantum_coherence'')
      | Some q \<Rightarrow>
          Inr \<lparr>model = ''trinity-consciousness-v1'',
               output_text = ''Trinity consciousness response for '' @ task_type task,
               confidence = 0.95,
               result_quantum_coherence = Some (quantum_coherence q),
               result_consciousness_level = Some (consciousness_level q)\<rparr>)"

definition claude_inference :: "AITask \<Rightarrow> inference_result" where
  "claude_inference task =
     \<lparr>model = ''claude-3-5-sonnet'',
      output_text = ''Claude response for '' @ task_type task,
      confidence = 0.88,
      result_quantum_coherence = None,
      result_consciousness_level = None\<rparr>"

definition local_llama_inference :: "AITask \<Rightarrow> inference_result" where
  "local_llama_inference task =
     \<lparr>model = ''llama-3.1-70b'',
      output_text = ''Llama response for '' @ task_type task,
      confidence = 0.82,
      result_quantum_coherence = None,
      result_consciousness_level = None\<rparr>"

definition fallback_inference :: "AITask \<Rightarrow> inference_result" where
  "fallback_inference task =
     \<lparr>model = ''fallback'',
      output_text = ''Fallback response for '' @ task_type task,
      confidence = 0.60,
      result_quantum_coherence = None,
      result_consciousness_level = None\<rparr>"

definition route_to_ai_model :: "orchestrator \<Rightarrow> AITask \<Rightarrow> exn + inference_result" where
  "route_to_ai_model s task =
     (if model_preference task = Some TRINITY_HYBRID then trinity_hybrid_inference s task
      else if model_preference task = Some CLAUDE_SONNET then Inr (claude_inference task)
      else if model_preference task = Some LOCAL_LLAMA then Inr (local_llama_inference task)
      else Inr (fallback_inference task))"

text \<open>
  The \<^verbatim>\<open>try\<close> block of \<^verbatim>\<open>_execute_ai_task\<close>. Its two statements that can raise (the routing
  call and \<^verbatim>\<open>self.quantum_state.to_dict()\<close>) come before its first write, so a raise
  leaves the state as it was on entry to the block.
\<close>

definition execute_try :: "nat \<Rightarrow> orchestrator \<Rightarrow> AITask \<Rightarrow> exn + orchestrator" where
  "execute_try now s task =
     (case route_to_ai_model s task of
        Inl e \<Rightarrow> Inl e
      | Inr result \<Rightarrow>
          (case quantum_state s of
             None \<Rightarrow> Inl (none_has_no_attribute ''to_dict'')
           | Some q \<Rightarrow>
               Inr (s\<lparr>result_store := (result_store s)(task_id task \<mapsto> Completed result now q),
                      active_tasks :=
                        AList.update (task_id task) (task\<lparr>status := ''completed''\<rparr>)
                          (active_tasks s)\<rparr>)))"

text \<open>
  \<^verbatim>\<open>_execute_ai_task\<close> from its second statement on: the write to \<^verbatim>\<open>active_tasks\<close>, the
  assignment of the status running, and the \<^verbatim>\<open>try\<close> statement with its handler. The task
  object is shared with \<^verbatim>\<open>active_tasks\<close>, so every assignment to \<^verbatim>\<open>task.status\<close> shows in the
  entry stored under the task's identifier.
\<close>

definition execute_ai_task_body :: "nat \<Rightarrow> orchestrator \<Rightarrow> AITask \<Rightarrow> orchestrator" where
  "execute_ai_task_body now s task =
     (let running = task\<lparr>status := ''running''\<rparr>;
          s1 = s\<lparr>active_tasks := AList.update (task_id task) running (active_tasks s)\<rparr>
      in case execute_try now s1 running of
           Inr s2 \<Rightarrow> s2
         | Inl e \<Rightarrow>
             s1\<lparr>active_tasks :=
                   AList.update (task_id task) (running\<lparr>status := ''failed''\<rparr>) (active_tasks s1),
                 result_store := (result_store s1)(task_id task \<mapsto> Failed (str_exn e) now)\<rparr>)"

text \<open>
  \<^verbatim>\<open>_execute_ai_task\<close>. Its first statement formats \<^verbatim>\<open>task.model_preference.value\<close> into a log
  message. It stands before the \<^verbatim>\<open>try\<close> statement: for a task without a model hint it
  raises, nothing has been written by then, and no handler of the function catches it.
\<close>

definition execute_ai_task :: "nat \<Rightarrow> orchestrator \<Rightarrow> AITask \<Rightarrow> exn + orchestrator" where
  "execute_ai_task now s task =
     (case model_preference task of
        None \<Rightarrow> Inl (none_has_no_attribute ''value'')
      | Some m \<Rightarrow> Inr (execute_ai_task_body now s task))"

text \<open>
  \<^verbatim>\<open>asyncio.Queue\<close>: \<^verbatim>\<open>put\<close> appends at the tail (the queue is unbounded, so \<^verbatim>\<open>put\<close> never
  waits), \<^verbatim>\<open>get\<close> removes the head and waits when the queue is empty (\<open>None\<close>).
\<close>

definition queue_put :: "'a \<Rightarrow> 'a list \<Rightarrow> 'a list" where
  "queue_put x q = q @ [x]"

definition queue_get :: "'a list \<Rightarrow> ('a \<times> 'a list) option" where
  "queue_get q = (case q of [] \<Rightarrow> None | x # rest \<Rightarrow> Some (x, rest))"

definition submit_task :: "orchestrator \<Rightarrow> AITask \<Rightarrow> orchestrator \<times> string option" where
  "submit_task s task = (s\<lparr>task_queue := queue_put task (task_queue s)\<rparr>, task_id task)"

definition get_task_result :: "orchestrator \<Rightarrow> string option \<Rightarrow> stored_result option" where
  "get_task_result s tid = result_store s tid"

text \<open>
  \<^verbatim>\<open>_process_task_queue\<close>: the loop \<^verbatim>\<open>while not self.task_queue.empty()\<close>. Its handler catches
  \<^verbatim>\<open>asyncio.QueueEmpty\<close> only, which nothing in the loop raises: an exception of
  \<^verbatim>\<open>_execute_ai_task\<close> ends the drain and leaves the function (\<open>Some e\<close>), with the task
  that raised off the queue and the tasks behind it still on it. One clock reading
  serves the whole drain (no claim depends on the time stamps).
\<close>

function process_task_queue :: "nat \<Rightarrow> orchestrator \<Rightarrow> exn option \<times> orchestrator" where
  "process_task_queue now s =
     (case queue_get (task_queue s) of
        None \<Rightarrow> (None, s)
      | Some (task, rest) \<Rightarrow>
          (case execute_ai_task now (s\<lparr>task_queue := rest\<rparr>) task of
             Inl e \<Rightarrow> (Some e, s\<lparr>task_queue := rest\<rparr>)
           | Inr s' \<Rightarrow> process_task_queue now s'))"
  by pat_completeness auto
termination
  by (relation "measure (\<lambda>(now, s). length (task_queue s))")
     (auto simp: queue_get_def execute_ai_task_def execute_ai_task_body_def execute_try_def Let_def
        split: list.splits sum.splits option.splits)

declare process_task_queue.simps [simp del]

text \<open>\<^verbatim>\<open>_update_quantum_state\<close>, the event-driven update.\<close>

definition update_quantum_state :: "rounding \<Rightarrow> orchestrator \<Rightarrow> exn + orchestrator" where
  "update_quantum_state rnd s =
     (let active_count = length (active_tasks s)
      in if active_count > 0 then
           (case quantum_state s of
              None \<Rightarrow> Inl (none_has_no_attribute ''learning_velocity'')
            | Some q \<Rightarrow>
                Inr (s\<lparr>quantum_state :=
                         Some (q\<lparr>learning_velocity :=
                                   min (flit rnd 1.0)
                                     (fmul rnd (learning_velocity q) (flit rnd 1.001))\<rparr>)\<rparr>))
         else Inr s)"

text \<open>\<^verbatim>\<open>_cleanup_tasks\<close>.\<close>

definition cleanup_tasks :: "orchestrator \<Rightarrow> orchestrator" where
  "cleanup_tasks s =
     (let completed_tasks =
            map fst (filter (\<lambda>(tid, task). status task \<in> set [''completed'', ''failed''])
                       (active_tasks s))
      in s\<lparr>active_tasks := fold AList.delete completed_tasks (active_tasks s)\<rparr>)"

text \<open>
  One iteration of \<^verbatim>\<open>_orchestration_loop\<close>: the \<^verbatim>\<open>except Exception\<close> of the loop logs an
  exception of the body (of the drain, or of the event-driven update) and goes on with
  the state as the raise left it, the rest of the body skipped
  (\<^verbatim>\<open>_evolve_consciousness\<close> is \<^verbatim>\<open>pass\<close>).
\<close>

definition orchestration_iteration :: "rounding \<Rightarrow> nat \<Rightarrow> orchestrator \<Rightarrow> orchestrator" where
  "orchestration_iteration rnd now s =
     (case process_task_queue now s of
        (Some e, s1) \<Rightarrow> s1
      | (None, s1) \<Rightarrow>
          (case update_quantum_state rnd s1 of
             Inl e \<Rightarrow> s1
           | Inr s2 \<Rightarrow> cleanup_tasks s2))"

text \<open>
  The loop \<^verbatim>\<open>for region in neural_activity\<close> of \<^verbatim>\<open>_update_consciousness_metrics\<close>, over the
  keys of the dict. The keys are the dict's own, so the lookup finds every one of them.
\<close>

fun regulate :: "rounding \<Rightarrow> string list \<Rightarrow> (string \<times> real) list \<Rightarrow> (string \<times> real) list" where
  "regulate rnd [] na = na"
| "regulate rnd (region # regions) na =
     (case map_of na region of
        None \<Rightarrow> regulate rnd regions na
      | Some current \<Rightarrow>
          (let delta = fmul rnd (fsub rnd (flit rnd 0.5) current) (flit rnd 0.01)
           in regulate rnd regions
                (AList.update region (max 0 (min 1 (fadd rnd current delta))) na)))"

text \<open>\<^verbatim>\<open>_update_consciousness_metrics\<close>, the tick-driven update.\<close>

definition update_consciousness_metrics :: "rounding \<Rightarrow> nat \<Rightarrow> orchestrator \<Rightarrow> orchestrator" where
  "update_consciousness_metrics rnd now s =
     (case quantum_state s of
        None \<Rightarrow> s
      | Some q \<Rightarrow>
          s\<lparr>quantum_state :=
              Some (q\<lparr>consciousness_level :=
                        min (flit rnd 1.0) (fadd rnd (consciousness_level q) (flit rnd 0.001)),
                      quantum_coherence :=
                        min (flit rnd 1.0) (fadd rnd (quantum_coherence q) (flit rnd 0.0005)),
                      neural_activity :=
                        regulate rnd (map fst (neural_activity q)) (neural_activity q),
                      timestamp := now\<rparr>)\<rparr>)"

text \<open>
  What can happen to a running orchestrator, one step at a time: a tick of the monitor
  thread, the event-driven update (by itself, or within an iteration of the
  orchestration loop, where an exception it raises is caught and logged), an iteration
  of the orchestration loop, a submission. The tick and the event-driven update assign to different
  attributes of the one state object (the tick to the levels, the activity channels and
  the time stamp, the event-driven update to the velocity), so an execution in which the
  two threads overlap has the effect of one of these sequences.
\<close>

datatype action = Tick nat | Event | Iterate nat | Submit AITask

fun apply_action :: "rounding \<Rightarrow> orchestrator \<Rightarrow> action \<Rightarrow> orchestrator" where
  "apply_action rnd s (Tick now) = update_consciousness_metrics rnd now s"
| "apply_action rnd s Event = (case update_quantum_state rnd s of Inl e \<Rightarrow> s | Inr s' \<Rightarrow> s')"
| "apply_action rnd s (Iterate now) = orchestration_iteration rnd now s"
| "apply_action rnd s (Submit task) = fst (submit_task s task)"

definition run :: "rounding \<Rightarrow> orchestrator \<Rightarrow> action list \<Rightarrow> orchestrator" where
  "run rnd s acts = foldl (apply_action rnd) s acts"

section \<open>trinity\_api\_server.py: data model\<close>

datatype AgentStatus = OFFLINE | INITIALIZING | ONLINE | PROCESSING | ERROR

text \<open>
  Field names that the two modules share are prefixed here: \<^verbatim>\<open>TrinityAgent.status\<close> is
  \<open>agent_status\<close>, \<^verbatim>\<open>ConsciousnessState.quantum_coherence\<close> is \<open>state_quantum_coherence\<close>,
  and the keys \<^verbatim>\<open>timestamp\<close> and \<^verbatim>\<open>confidence\<close> of a response are \<open>response_timestamp\<close> and
  \<open>response_confidence\<close>.
\<close>

record TrinityAgent =
  name :: string
  agent_type :: string
  agent_status :: AgentStatus
  last_heartbeat :: nat
  processed_requests :: int
  error_count :: int
  capabilities :: "string list"

record ConsciousnessState =
  awareness_level :: real
  state_quantum_coherence :: real
  neural_plasticity :: real
  memory_utilization :: real
  active_agents :: int
  total_processed :: int
  uptime_seconds :: real
  manhattan_protocol_active :: bool

text \<open>The dict that \<^verbatim>\<open>_generate_response\<close> builds and the cache stores.\<close>

record response =
  agent :: string
  response_text :: string
  response_timestamp :: nat
  processing_time :: real
  response_confidence :: real
  capabilities_used :: "string list"

datatype log_level = LOG_INFO | LOG_WARNING | LOG_ERROR

text \<open>\<open>log\<close> is the sequence of records handed to the logger \<^verbatim>\<open>TrinityAI\<close>, oldest first.\<close>

record TrinityAIOrchestrator =
  agents :: "(string \<times> TrinityAgent) list"
  consciousness_state :: ConsciousnessState
  start_time :: nat
  response_cache :: "string \<rightharpoonup> response"
  log :: "(log_level \<times> string) list"

section \<open>trinity\_api\_server.py: the cache key\<close>

text \<open>
  \<^verbatim>\<open>json.dumps(request_data, sort_keys=True)\<close> with the default separators and
  \<^verbatim>\<open>ensure_ascii\<close>. A character is a code point below 256.
\<close>

definition hex_digit :: "nat \<Rightarrow> char" where
  "hex_digit n = (if n < 10 then char_of (48 + n) else char_of (87 + n))"

definition escape_char :: "char \<Rightarrow> string" where
  "escape_char c =
     (let n = of_char c :: nat
      in if n = 0x22 then [CHR 0x5C, CHR 0x22]
         else if n = 0x5C then [CHR 0x5C, CHR 0x5C]
         else if n = 0x0A then [CHR 0x5C, CHR ''n'']
         else if n = 0x0D then [CHR 0x5C, CHR ''r'']
         else if n = 0x09 then [CHR 0x5C, CHR ''t'']
         else if n = 0x08 then [CHR 0x5C, CHR ''b'']
         else if n = 0x0C then [CHR 0x5C, CHR ''f'']
         else if n < 0x20 \<or> 0x7E < n
           then [CHR 0x5C, CHR ''u'', CHR ''0'', CHR ''0'', hex_digit (n div 16), hex_digit (n mod 16)]
         else [c])"

definition encode_basestring_ascii :: "string \<Rightarrow> string" where
  "encode_basestring_ascii s = [CHR 0x22] @ concat (map escape_char s) @ [CHR 0x22]"

fun str_nat :: "nat \<Rightarrow> string" where
  "str_nat n = (if n < 10 then [char_of (48 + n)] else str_nat (n div 10) @ [char_of (48 + n mod 10)])"

declare str_nat.simps [simp del]

definition str_int :: "int \<Rightarrow> string" where
  "str_int i = (if i < 0 then ''-'' @ str_nat (nat (- i)) else str_nat (nat i))"

fun join :: "string \<Rightarrow> string list \<Rightarrow> string" where
  "join sep [] = []"
| "join sep [x] = x"
| "join sep (x # y # ys) = x @ sep @ join sep (y # ys)"

fun json_dumps_sorted :: "json \<Rightarrow> string" where
  "json_dumps_sorted JNull = ''null''"
| "json_dumps_sorted (JBool b) = (if b then ''true'' else ''false'')"
| "json_dumps_sorted (JInt i) = str_int i"
| "json_dumps_sorted (JStr s) = encode_basestring_ascii s"
| "json_dumps_sorted (JArr xs) = ''['' @ join '', '' (map json_dumps_sorted xs) @ '']''"
| "json_dumps_sorted (JObj items) =
     ''{'' @ join '', ''
       (map (\<lambda>p. encode_basestring_ascii (fst p) @ '': '' @ json_dumps_sorted (snd p))
          (sort_key fst items)) @ ''}''"

text \<open>
  \<^verbatim>\<open>hashlib.md5(...).hexdigest()\<close> is a library function: the hash is a parameter \<open>H\<close> of
  the model. The text that \<^verbatim>\<open>json.dumps\<close> returns is ASCII, so \<^verbatim>\<open>encode()\<close> leaves it as it is.
\<close>

definition cache_key :: "(string \<Rightarrow> string) \<Rightarrow> (string \<times> json) list \<Rightarrow> string" where
  "cache_key H request_data = H (json_dumps_sorted (JObj request_data))"

section \<open>trinity\_api\_server.py: operations\<close>

definition TrinityAIOrchestrator_init :: "nat \<Rightarrow> TrinityAIOrchestrator" where
  "TrinityAIOrchestrator_init now =
     \<lparr>agents = [],
      consciousness_state =
        \<lparr>awareness_level = 1.0, state_quantum_coherence = 0.95, neural_plasticity = 0.88,
         memory_utilization = 0.15, active_agents = 0, total_processed = 0,
         uptime_seconds = 0.0, manhattan_protocol_active = True\<rparr>,
      start_time = now,
      response_cache = Map.empty,
      log = []\<rparr>"

definition agent_configs :: "(string \<times> string \<times> string list) list" where
  "agent_configs =
     [(''claude'', ''strategic_reasoning'',
         [''analysis'', ''reasoning'', ''code_generation'', ''strategic_planning'']),
      (''gemini'', ''creative_synthesis'',
         [''creativity'', ''multimodal'', ''synthesis'', ''innovation'']),
      (''perplexity'', ''knowledge_integration'',
         [''search'', ''fact_checking'', ''knowledge_synthesis'', ''research''])]"

text \<open>
  \<^verbatim>\<open>str.lower\<close> on code points below 256, and \<^verbatim>\<open>str.upper\<close> on the ASCII names of the agent
  configurations.
\<close>

definition lower_char :: "char \<Rightarrow> char" where
  "lower_char c =
     (let n = of_char c :: nat
      in if (65 \<le> n \<and> n \<le> 90) \<or> (192 \<le> n \<and> n \<le> 222 \<and> n \<noteq> 215)
         then char_of (n + 32) else c)"

definition lower :: "string \<Rightarrow> string" where
  "lower s = map lower_char s"

definition upper_char :: "char \<Rightarrow> char" where
  "upper_char c =
     (let n = of_char c :: nat in if 97 \<le> n \<and> n \<le> 122 then char_of (n - 32) else c)"

definition upper :: "string \<Rightarrow> string" where
  "upper s = map upper_char s"

text \<open>
  \<^verbatim>\<open>initialize_agents\<close>: every agent is created in status INITIALIZING and set ONLINE
  before it is stored; one clock reading serves the whole call.
\<close>

definition initialize_agents :: "nat \<Rightarrow> TrinityAIOrchestrator \<Rightarrow> TrinityAIOrchestrator" where
  "initialize_agents now s =
     (let s1 = s\<lparr>log := log s @
                 [(LOG_INFO, ''Initializing Trinity AI agents with Manhattan Project protocols'')]\<rparr>;
          s2 = fold (\<lambda>(n, ty, caps) st.
                  st\<lparr>agents := AList.update n
                        \<lparr>name = n, agent_type = ty, agent_status = ONLINE, last_heartbeat = now,
                         processed_requests = 0, error_count = 0, capabilities = caps\<rparr>
                        (agents st),
                     log := log st @ [(LOG_INFO, upper n @ '' agent: ONLINE'')]\<rparr>)
                agent_configs s1
      in s2\<lparr>consciousness_state :=
               (consciousness_state s2)\<lparr>active_agents := int (length (agents s2))\<rparr>,
             log := log s2 @ [(LOG_INFO, ''Trinity AI orchestration: FULLY OPERATIONAL'')]\<rparr>)"

text \<open>\<^verbatim>\<open>keyword in prompt\<close>: the keyword occurs as a contiguous part of the prompt.\<close>

fun str_contains :: "string \<Rightarrow> string \<Rightarrow> bool" where
  "str_contains keyword [] = (keyword = [])"
| "str_contains keyword (c # cs) =
     (take (length keyword) (c # cs) = keyword \<or> str_contains keyword cs)"

definition py_type_name :: "json \<Rightarrow> string" where
  "py_type_name v =
     (case v of JNull \<Rightarrow> ''NoneType'' | JBool _ \<Rightarrow> ''bool'' | JInt _ \<Rightarrow> ''int''
      | JStr _ \<Rightarrow> ''str'' | JArr _ \<Rightarrow> ''list'' | JObj _ \<Rightarrow> ''dict'')"

definition has_no_attribute :: "json \<Rightarrow> string \<Rightarrow> exn" where
  "has_no_attribute v a =
     AttributeError ([CHR 0x27] @ py_type_name v @ [CHR 0x27] @ '' object has no attribute ''
       @ [CHR 0x27] @ a @ [CHR 0x27])"

text \<open>\<^verbatim>\<open>_route_request\<close>. \<^verbatim>\<open>.lower()\<close> raises when the prompt is not a string.\<close>

definition route_request :: "(string \<times> json) list \<Rightarrow> exn + string" where
  "route_request request_data =
     (case (case map_of request_data ''prompt'' of
              None \<Rightarrow> Inr (lower '''')
            | Some (JStr p) \<Rightarrow> Inr (lower p)
            | Some v \<Rightarrow> Inl (has_no_attribute v ''lower'')) of
        Inl e \<Rightarrow> Inl e
      | Inr prompt \<Rightarrow>
          Inr (if list_ex (\<lambda>keyword. str_contains keyword prompt)
                    [''analyze'', ''strategy'', ''plan'', ''code''] then ''claude''
               else if list_ex (\<lambda>keyword. str_contains keyword prompt)
                    [''creative'', ''image'', ''design'', ''art''] then ''gemini''
               else if list_ex (\<lambda>keyword. str_contains keyword prompt)
                    [''search'', ''fact'', ''research'', ''find''] then ''perplexity''
               else ''claude''))"

text \<open>
  \<^verbatim>\<open>request_data.get('prompt', '')\<close> where the source slices it: a string by then, since
  \<^verbatim>\<open>_route_request\<close> has returned.
\<close>

definition prompt_of :: "(string \<times> json) list \<Rightarrow> string" where
  "prompt_of request_data =
     (case map_of request_data ''prompt'' of Some (JStr p) \<Rightarrow> p | _ \<Rightarrow> '''')"

text \<open>\<^verbatim>\<open>_generate_response\<close>.\<close>

definition generate_response ::
  "nat \<Rightarrow> TrinityAIOrchestrator \<Rightarrow> string \<Rightarrow> (string \<times> json) list \<Rightarrow> exn + response" where
  "generate_response now s agent_name request_data =
     (case map_of (agents s) agent_name of
        None \<Rightarrow> Inl (KeyError agent_name)
      | Some a \<Rightarrow>
          (let prompt = prompt_of request_data;
               responses =
                 [(''claude'', ''Claude Strategic Analysis: '' @ take 100 prompt @ ''...''),
                  (''gemini'', ''Gemini Creative Synthesis: '' @ take 100 prompt @ ''...''),
                  (''perplexity'',
                     ''Perplexity Knowledge Integration: '' @ take 100 prompt @ ''...'')]
           in Inr \<lparr>agent = agent_name,
                   response_text =
                     (case map_of responses agent_name of
                        None \<Rightarrow> ''Unknown agent response'' | Some r \<Rightarrow> r),
                   response_timestamp = now,
                   processing_time = 0.5,
                   response_confidence = 0.95,
                   capabilities_used = take 2 (capabilities a)\<rparr>))"

text \<open>
  An assignment to an attribute of the agent object that \<^verbatim>\<open>process_request\<close> holds: the
  object is the one stored in \<^verbatim>\<open>agents\<close> under its name.
\<close>

definition update_agent ::
  "string \<Rightarrow> (TrinityAgent \<Rightarrow> TrinityAgent) \<Rightarrow> TrinityAIOrchestrator \<Rightarrow> TrinityAIOrchestrator" where
  "update_agent agent_name f s =
     (case map_of (agents s) agent_name of
        None \<Rightarrow> s
      | Some a \<Rightarrow> s\<lparr>agents := AList.update agent_name (f a) (agents s)\<rparr>)"

text \<open>
  \<^verbatim>\<open>process_request\<close> is a coroutine: at \<^verbatim>\<open>await asyncio.sleep(processing_time)\<close> it is
  suspended and other requests run. \<open>process_request_begin\<close> is the part before the
  suspension: it ends the call (a cache hit or an exception) or leaves a suspended
  request. \<open>process_request_resume\<close> is the part after it.
\<close>

record suspended_request =
  request_id :: string
  suspended_cache_key :: string
  agent_name :: string
  request_data :: "(string \<times> json) list"

definition process_request_begin ::
  "(string \<Rightarrow> string) \<Rightarrow> string \<Rightarrow> nat \<Rightarrow> TrinityAIOrchestrator \<Rightarrow> (string \<times> json) list \<Rightarrow>
     ((exn + response) + suspended_request) \<times> TrinityAIOrchestrator" where
  "process_request_begin H rid now s data =
     (let key = cache_key H data
      in case response_cache s key of
           Some cached \<Rightarrow>
             (Inl (Inr cached), s\<lparr>log := log s @ [(LOG_INFO, ''Cache hit for request '' @ rid)]\<rparr>)
         | None \<Rightarrow>
             (case route_request data of
                Inl e \<Rightarrow> (Inl (Inl e), s)
              | Inr an \<Rightarrow>
                  (case map_of (agents s) an of
                     None \<Rightarrow> (Inl (Inl (ValueError (''Agent '' @ an @ '' not available''))), s)
                   | Some a \<Rightarrow>
                       (Inr \<lparr>request_id = rid, suspended_cache_key = key, agent_name = an,
                             request_data = data\<rparr>,
                        update_agent an
                          (\<lambda>a. a\<lparr>agent_status := PROCESSING, last_heartbeat := now\<rparr>) s))))"

definition process_request_resume ::
  "nat \<Rightarrow> TrinityAIOrchestrator \<Rightarrow> suspended_request \<Rightarrow> (exn + response) \<times> TrinityAIOrchestrator" where
  "process_request_resume now s p =
     (case generate_response now s (agent_name p) (request_data p) of
        Inr resp \<Rightarrow>
          (let s1 = update_agent (agent_name p)
                      (\<lambda>a. a\<lparr>processed_requests := processed_requests a + 1,
                              agent_status := ONLINE\<rparr>) s;
               s2 = s1\<lparr>consciousness_state :=
                          (consciousness_state s1)
                            \<lparr>total_processed := total_processed (consciousness_state s1) + 1\<rparr>\<rparr>;
               s3 = s2\<lparr>response_cache := (response_cache s2)(suspended_cache_key p \<mapsto> resp)\<rparr>
           in (Inr resp,
               s3\<lparr>log := log s3 @
                     [(LOG_INFO, ''Request '' @ request_id p @ '' processed by '' @ agent_name p)]\<rparr>))
      | Inl e \<Rightarrow>
          (let s1 = update_agent (agent_name p)
                      (\<lambda>a. a\<lparr>error_count := error_count a + 1, agent_status := ERROR\<rparr>) s
           in (Inl e,
               s1\<lparr>log := log s1 @
                     [(LOG_ERROR, ''Error processing request '' @ request_id p @ '': '' @ str_exn e)]\<rparr>)))"

text \<open>A call of \<^verbatim>\<open>process_request\<close> that no other request interleaves with.\<close>

definition process_request ::
  "(string \<Rightarrow> string) \<Rightarrow> string \<Rightarrow> nat \<Rightarrow> nat \<Rightarrow> TrinityAIOrchestrator \<Rightarrow> (string \<times> json) list \<Rightarrow>
     (exn + response) \<times> TrinityAIOrchestrator" where
  "process_request H rid now later s data =
     (case process_request_begin H rid now s data of
        (Inl outcome, s1) \<Rightarrow> (outcome, s1)
      | (Inr p, s1) \<Rightarrow> process_request_resume later s1 p)"

section \<open>Predicates and examples used in the statements\<close>

definition unit_interval :: "real \<Rightarrow> bool" where
  "unit_interval v \<longleftrightarrow> 0 \<le> v \<and> v \<le> 1"

definition metrics_in_unit :: "QuantumState \<Rightarrow> bool" where
  "metrics_in_unit q \<longleftrightarrow>
     unit_interval (consciousness_level q) \<and> unit_interval (quantum_coherence q) \<and>
     unit_interval (memory_coherence q) \<and> unit_interval (learning_velocity q) \<and>
     list_all (\<lambda>(region, v). unit_interval v) (neural_activity q)"

text \<open>The velocity metric of the live state vector (0 while there is none).\<close>

definition velocity :: "orchestrator \<Rightarrow> real" where
  "velocity s = (case quantum_state s of None \<Rightarrow> 0 | Some q \<Rightarrow> learning_velocity q)"

definition example_task :: "string \<Rightarrow> int \<Rightarrow> AIModel \<Rightarrow> string list \<Rightarrow> AITask" where
  "example_task tid prio m deps =
     \<lparr>task_id = Some tid, task_type = ''analysis'', priority = prio, input_data = [],
      model_preference = Some m, deadline = None, dependencies = deps, metadata = [],
      status = ''pending'', created_at = 0\<rparr>"

text \<open>A task with no identifier, no kind and no payload.\<close>

definition anonymous_task :: AITask where
  "anonymous_task =
     \<lparr>task_id = None, task_type = [], priority = 0, input_data = [],
      model_preference = Some GPT4_TURBO, deadline = None, dependencies = [], metadata = [],
      status = ''pending'', created_at = 0\<rparr>"

definition task_low :: AITask where
  "task_low = example_task ''low'' 1 CLAUDE_SONNET []"

definition task_high :: AITask where
  "task_high = example_task ''high'' 9 CLAUDE_SONNET []"

text \<open>The invariant of a started orchestrator behind the bounds.\<close>

definition state_ok :: "orchestrator \<Rightarrow> bool" where
  "state_ok s \<longleftrightarrow> (case quantum_state s of None \<Rightarrow> False | Some q \<Rightarrow> metrics_in_unit q)"

text \<open>One step of homeostatic regulation on one activity channel.\<close>

definition homeostasis :: "rounding \<Rightarrow> string \<times> real \<Rightarrow> string \<times> real" where
  "homeostasis rnd = (\<lambda>(region, current).
     (region, max 0 (min 1 (fadd rnd current
                 (fmul rnd (fsub rnd (flit rnd 0.5) current) (flit rnd 0.01))))))"

text \<open>The velocity is a float in the unit interval.\<close>

definition velocity_ok :: "rounding \<Rightarrow> orchestrator \<Rightarrow> bool" where
  "velocity_ok rnd s \<longleftrightarrow>
     (case quantum_state s of
        None \<Rightarrow> False
      | Some q \<Rightarrow> unit_interval (learning_velocity q) \<and> rnd (learning_velocity q) = learning_velocity q)"

definition task_first :: AITask where
  "task_first = example_task ''t1'' 5 TRINITY_HYBRID []"

definition task_dependent :: AITask where
  "task_dependent = example_task ''t2'' 5 CLAUDE_SONNET [''t1'']"

text \<open>A task with a model hint: \<^verbatim>\<open>model_preference\<close> holds a member of \<^verbatim>\<open>AIModel\<close>.\<close>

definition has_hint :: "AITask \<Rightarrow> bool" where
  "has_hint task \<longleftrightarrow> model_preference task \<noteq> None"

text \<open>
  Scenario A: the dependent task is submitted before the task it depends on;
  \<open>dependent_dispatched\<close> is the state after the first pass of the drain's loop.
\<close>

definition dependent_first :: orchestrator where
  "dependent_first =
     fst (submit_task
            (fst (submit_task (start_orchestrator (\<lambda>x. x) 0 ''state-1'' init_orchestrator)
                    task_dependent))
            task_first)"

definition dependent_dispatched :: orchestrator where
  "dependent_dispatched =
     execute_ai_task_body 1 (dependent_first\<lparr>task_queue := [task_first]\<rparr>) task_dependent"

text \<open>
  Scenario B: the dependency has failed (the queue that held it was drained when there
  was no state vector); then the orchestrator is started and the dependent task
  submitted.
\<close>

definition dependency_failed :: orchestrator where
  "dependency_failed =
     fst (submit_task
            (start_orchestrator (\<lambda>x. x) 1 ''state-1''
               (snd (process_task_queue 0 (fst (submit_task init_orchestrator task_first)))))
            task_dependent)"

text \<open>A JSON value as Python holds it: the keys of every dict are distinct.\<close>

fun wf_json :: "json \<Rightarrow> bool" where
  "wf_json (JArr xs) = list_all wf_json xs"
| "wf_json (JObj items) = (distinct (map fst items) \<and> list_all (\<lambda>p. wf_json (snd p)) items)"
| "wf_json v = True"

text \<open>
  Two JSON values are structurally identical when they differ at most in the order of
  the fields of their objects: objects have the same number of fields and every field
  of the one is a field of the other with a structurally identical value.
\<close>

fun same_structure :: "json \<Rightarrow> json \<Rightarrow> bool" where
  "same_structure (JArr xs) (JArr ys) = list_all2 same_structure xs ys"
| "same_structure (JObj xs) (JObj ys) =
     (length xs = length ys \<and>
      list_all (\<lambda>p. case map_of ys (fst p) of
                      None \<Rightarrow> False
                    | Some w \<Rightarrow> same_structure (snd p) w) xs)"
| "same_structure (JArr xs) b = False"
| "same_structure (JObj xs) b = False"
| "same_structure JNull b = (b = JNull)"
| "same_structure (JBool x) b = (b = JBool x)"
| "same_structure (JInt i) b = (b = JInt i)"
| "same_structure (JStr s) b = (b = JStr s)"

text \<open>The server after \<^verbatim>\<open>init_app\<close>, a request, and two calls for it that overlap.\<close>

definition api_ready :: TrinityAIOrchestrator where
  "api_ready = initialize_agents 0 (TrinityAIOrchestrator_init 0)"

definition example_request :: "(string \<times> json) list" where
  "example_request = [(''prompt'', JStr ''Analyze the plan''), (''type'', JStr ''general'')]"

definition example_request_reordered :: "(string \<times> json) list" where
  "example_request_reordered = [(''type'', JStr ''general''), (''prompt'', JStr ''Analyze the plan'')]"

definition example_suspended :: "string \<Rightarrow> suspended_request" where
  "example_suspended rid =
     \<lparr>request_id = rid, suspended_cache_key = cache_key (\<lambda>x. x) example_request,
      agent_name = ''claude'', request_data = example_request\<rparr>"

definition example_response :: "nat \<Rightarrow> response" where
  "example_response now =
     \<lparr>agent = ''claude'',
      response_text = ''Claude Strategic Analysis: Analyze the plan...'',
      response_timestamp = now,
      processing_time = 0.5,
      response_confidence = 0.95,
      capabilities_used = [''analysis'', ''reasoning'']\<rparr>"

definition first_begun :: "((exn + response) + suspended_request) \<times> TrinityAIOrchestrator" where
  "first_begun = process_request_begin (\<lambda>x. x) ''r1'' 2 api_ready example_request"

definition second_begun :: "((exn + response) + suspended_request) \<times> TrinityAIOrchestrator" where
  "second_begun = process_request_begin (\<lambda>x. x) ''r2'' 3 (snd first_begun) example_request"

definition first_done :: "(exn + response) \<times> TrinityAIOrchestrator" where
  "first_done = process_request_resume 4 (snd second_begun) (example_suspended ''r1'')"

definition second_done :: "(exn + response) \<times> TrinityAIOrchestrator" where
  "second_done = process_request_resume 5 (snd first_done) (example_suspended ''r2'')"

section \<open>The adaptive state\<close>

subsection \<open>Bounds\<close>

lemma rounding_unit: "rounding_ok rnd \<Longrightarrow> unit_interval c \<Longrightarrow> unit_interval (rnd c)"
  unfolding rounding_ok_def unit_interval_def by metis

lemma rounding_nonneg: "rounding_ok rnd \<Longrightarrow> 0 \<le> c \<Longrightarrow> 0 \<le> rnd c"
  unfolding rounding_ok_def by metis

lemma list_all_update:
  "list_all P al \<Longrightarrow> P (k, v) \<Longrightarrow> list_all P (AList.update k v al)"
  by (induction al) auto

lemma regulate_unit:
  "list_all (\<lambda>(region, v). unit_interval v) na \<Longrightarrow>
   list_all (\<lambda>(region, v). unit_interval v) (regulate rnd regions na)"
proof (induction regions arbitrary: na)
  case Nil
  then show ?case by simp
next
  case (Cons region regions)
  show ?case
  proof (cases "map_of na region")
    case None
    then show ?thesis using Cons by simp
  next
    case (Some current)
    have "unit_interval (max 0 (min 1 x))" for x :: real
      by (simp add: unit_interval_def)
    then show ?thesis using Some Cons
      by (simp add: Let_def list_all_update)
  qed
qed

lemma clamp_add_unit:
  assumes "rounding_ok rnd" "unit_interval v" "0 \<le> c"
  shows "unit_interval (min (flit rnd 1.0) (fadd rnd v (flit rnd c)))"
proof -
  have one: "rnd 1 = 1" using assms(1) by (simp add: rounding_ok_def)
  have "0 \<le> rnd c" using assms rounding_nonneg by blast
  then have "0 \<le> v + rnd c" using assms(2) by (simp add: unit_interval_def)
  then have "0 \<le> rnd (v + rnd c)" using assms(1) rounding_nonneg by blast
  then show ?thesis by (simp add: one fadd_def flit_def unit_interval_def)
qed

lemma tick_metrics:
  assumes "rounding_ok rnd" "metrics_in_unit q"
  shows "metrics_in_unit
     (q\<lparr>consciousness_level :=
           min (flit rnd 1.0) (fadd rnd (consciousness_level q) (flit rnd 0.001)),
         quantum_coherence :=
           min (flit rnd 1.0) (fadd rnd (quantum_coherence q) (flit rnd 0.0005)),
         neural_activity := regulate rnd (map fst (neural_activity q)) (neural_activity q),
         timestamp := now\<rparr>)"
  using assms clamp_add_unit [of rnd _ "0.001"] clamp_add_unit [of rnd _ "0.0005"]
  by (simp add: metrics_in_unit_def regulate_unit)

lemma state_ok_tick:
  assumes "rounding_ok rnd" "state_ok s"
  shows "state_ok (update_consciousness_metrics rnd now s)"
proof (cases "quantum_state s")
  case None
  then show ?thesis using assms(2) by (simp add: state_ok_def)
next
  case (Some q)
  then show ?thesis
    using assms tick_metrics [of rnd q now]
    by (simp add: state_ok_def update_consciousness_metrics_def)
qed

lemma velocity_step_unit:
  assumes "rounding_ok rnd" "unit_interval v"
  shows "unit_interval (min (flit rnd 1.0) (fmul rnd v (flit rnd 1.001)))"
proof -
  have one: "rnd 1 = 1" using assms(1) by (simp add: rounding_ok_def)
  have "0 \<le> rnd 1.001" using assms(1) rounding_nonneg by simp
  then have "0 \<le> v * rnd 1.001" using assms(2) by (simp add: unit_interval_def)
  then have "0 \<le> rnd (v * rnd 1.001)" using assms(1) rounding_nonneg by blast
  then show ?thesis by (simp add: one fmul_def flit_def unit_interval_def)
qed

lemma state_ok_event:
  "rounding_ok rnd \<Longrightarrow> state_ok s \<Longrightarrow>
   \<exists>s'. update_quantum_state rnd s = Inr s' \<and> state_ok s' \<and>
        task_queue s' = task_queue s \<and> active_tasks s' = active_tasks s \<and>
        result_store s' = result_store s"
  using velocity_step_unit [of rnd]
  by (auto simp: state_ok_def update_quantum_state_def metrics_in_unit_def Let_def
      split: option.splits)

lemma quantum_state_execute_ai_task_body [simp]:
  "quantum_state (execute_ai_task_body now s task) = quantum_state s"
  by (simp add: execute_ai_task_body_def execute_try_def Let_def split: sum.splits option.splits)

lemma quantum_state_process_task_queue [simp]:
  "quantum_state (snd (process_task_queue now s)) = quantum_state s"
proof (induction now s rule: process_task_queue.induct)
  case (1 now s)
  show ?case
  proof (cases "queue_get (task_queue s)")
    case None
    then show ?thesis by (simp add: process_task_queue.simps [of now s])
  next
    case (Some p)
    obtain task rest where p: "p = (task, rest)" by (cases p)
    show ?thesis
    proof (cases "execute_ai_task now (s\<lparr>task_queue := rest\<rparr>) task")
      case (Inl e)
      then show ?thesis using Some p by (simp add: process_task_queue.simps [of now s])
    next
      case (Inr s')
      have "quantum_state s' = quantum_state s"
        using Inr by (auto simp: execute_ai_task_def split: option.splits)
      then show ?thesis
        using "1.IH" [OF Some p [symmetric] Inr] Some p Inr
        by (simp add: process_task_queue.simps [of now s])
    qed
  qed
qed

lemma quantum_state_cleanup_tasks [simp]:
  "quantum_state (cleanup_tasks s) = quantum_state s"
  by (simp add: cleanup_tasks_def Let_def)

lemma state_ok_cong: "quantum_state s' = quantum_state s \<Longrightarrow> state_ok s' = state_ok s"
  by (simp add: state_ok_def)

lemma state_ok_iteration:
  assumes "rounding_ok rnd" "state_ok s"
  shows "state_ok (orchestration_iteration rnd now s)"
proof -
  obtain r s1 where p: "process_task_queue now s = (r, s1)"
    by (cases "process_task_queue now s")
  have "quantum_state s1 = quantum_state s"
    using quantum_state_process_task_queue [of now s] p by simp
  then have ok1: "state_ok s1" using assms(2) by (simp add: state_ok_def)
  obtain s2 where "update_quantum_state rnd s1 = Inr s2" "state_ok s2"
    using state_ok_event [OF assms(1) ok1] by blast
  then show ?thesis
    using p ok1 by (cases r) (simp_all add: orchestration_iteration_def state_ok_def)
qed

lemma state_ok_action:
  assumes "rounding_ok rnd" "state_ok s"
  shows "state_ok (apply_action rnd s a)"
proof (cases a)
  case (Tick t)
  then show ?thesis using assms by (simp add: state_ok_tick)
next
  case Event
  then show ?thesis using state_ok_event [OF assms] by auto
next
  case (Iterate t)
  then show ?thesis using assms by (simp add: state_ok_iteration)
next
  case (Submit task)
  then show ?thesis using assms(2) by (simp add: state_ok_def submit_task_def)
qed

lemma state_ok_run:
  "rounding_ok rnd \<Longrightarrow> state_ok s \<Longrightarrow> state_ok (run rnd s acts)"
  unfolding run_def
  by (induction acts arbitrary: s) (simp_all add: state_ok_action)

lemma state_ok_start:
  assumes "rounding_ok rnd"
  shows "state_ok (start_orchestrator rnd now sid s)"
proof -
  have "unit_interval (flit rnd c)" if "0 \<le> c" "c \<le> 1" for c
    using that rounding_unit [OF assms, of c] by (simp add: flit_def unit_interval_def)
  then show ?thesis
    by (simp add: state_ok_def start_orchestrator_def initialize_quantum_state_def
        metrics_in_unit_def)
qed

text \<open>
  Claim C5. Starting from the initial state that \<^verbatim>\<open>start_orchestrator\<close> installs, after any
  sequence of tick-driven updates, event-driven updates, iterations of the orchestration
  loop and submissions, there is a state vector and every
  metric of it (consciousness level, coherence, memory coherence, learning velocity) and
  every activity channel lies in the interval from 0 to 1.
\<close>

theorem metrics_stay_in_unit_interval:
  assumes "rounding_ok rnd"
  shows "case quantum_state (run rnd (start_orchestrator rnd now sid s) acts) of
           None \<Rightarrow> False
         | Some q \<Rightarrow> metrics_in_unit q"
  using state_ok_run [OF assms state_ok_start [OF assms]] by (simp add: state_ok_def)

theorem metrics_stay_in_unit_interval_witness:
  "rounding_ok (\<lambda>x. x) \<and>
   (case quantum_state
           (run (\<lambda>x. x) (start_orchestrator (\<lambda>x. x) 0 ''state-1'' init_orchestrator)
              [Tick 1, Submit task_low, Iterate 2, Event, Tick 3]) of
      None \<Rightarrow> False
    | Some q \<Rightarrow> metrics_in_unit q)"
proof -
  have h: "rounding_ok (\<lambda>x. x)" by (simp add: rounding_ok_def)
  show ?thesis
    using h metrics_stay_in_unit_interval
      [OF h, of 0 "''state-1''" init_orchestrator "[Tick 1, Submit task_low, Iterate 2, Event, Tick 3]"]
    by simp
qed

subsection \<open>The tick-driven update\<close>

lemma map_of_append_fresh:
  "k \<notin> fst ` set pre \<Longrightarrow> map_of (pre @ (k, v) # rest) k = Some v"
  by (induction pre) auto

lemma update_append_fresh:
  "k \<notin> fst ` set pre \<Longrightarrow> AList.update k w (pre @ (k, v) # rest) = pre @ (k, w) # rest"
  by (induction pre) auto

lemma fst_homeostasis [simp]: "fst (homeostasis rnd p) = fst p"
  by (cases p) (simp add: homeostasis_def)

lemma regulate_suffix:
  "distinct (map fst (pre @ rest)) \<Longrightarrow>
   regulate rnd (map fst rest) (map (homeostasis rnd) pre @ rest) =
   map (homeostasis rnd) (pre @ rest)"
proof (induction rest arbitrary: pre)
  case Nil
  then show ?case by simp
next
  case (Cons p rest)
  obtain k v where p: "p = (k, v)" by (cases p)
  let ?pre = "map (homeostasis rnd) pre"
  have fresh: "k \<notin> fst ` set ?pre"
    using Cons.prems p by (auto simp: image_image)
  have step: "regulate rnd (map fst (p # rest)) (?pre @ p # rest) =
              regulate rnd (map fst rest) (?pre @ homeostasis rnd p # rest)"
    using map_of_append_fresh [OF fresh] update_append_fresh [OF fresh]
    by (simp add: p Let_def homeostasis_def)
  have "distinct (map fst ((pre @ [p]) @ rest))" using Cons.prems by simp
  from Cons.IH [OF this] step show ?case by simp
qed

lemma regulate_all:
  "distinct (map fst na) \<Longrightarrow> regulate rnd (map fst na) na = map (homeostasis rnd) na"
  using regulate_suffix [of "[]" na rnd] by simp

text \<open>
  Claim C8. On a tick (with a live state vector, whose activity channels are the keys of
  a dict and so distinct), the awareness metric \<^verbatim>\<open>consciousness_level\<close> is incremented by
  0.001 and the coherence metric by 0.0005, each clamped at the ceiling 1.0, and every
  activity channel gets the value \<open>max 0 (min 1 (current + (0.5 - current) * 0.01))\<close>: a
  step toward the midpoint 0.5 proportional to its distance from it. The channels and
  their order stay as they were.
\<close>

theorem tick_update_formula:
  assumes "quantum_state s = Some q" and "distinct (map fst (neural_activity q))"
  shows "\<exists>q'. quantum_state (update_consciousness_metrics rnd now s) = Some q' \<and>
     consciousness_level q' =
       min (flit rnd 1.0) (fadd rnd (consciousness_level q) (flit rnd 0.001)) \<and>
     quantum_coherence q' =
       min (flit rnd 1.0) (fadd rnd (quantum_coherence q) (flit rnd 0.0005)) \<and>
     neural_activity q' =
       map (\<lambda>(region, current).
              (region, max 0 (min 1 (fadd rnd current
                 (fmul rnd (fsub rnd (flit rnd 0.5) current) (flit rnd 0.01))))))
         (neural_activity q)"
  using assms regulate_all [of "neural_activity q" rnd]
  by (simp add: update_consciousness_metrics_def homeostasis_def)

theorem tick_update_formula_witness:
  "quantum_state (start_orchestrator (\<lambda>x. x) 0 ''state-1'' init_orchestrator) =
     Some (initialize_quantum_state (\<lambda>x. x) 0 ''state-1'') \<and>
   distinct (map fst (neural_activity (initialize_quantum_state (\<lambda>x. x) 0 ''state-1''))) \<and>
   (\<exists>q'. quantum_state
           (update_consciousness_metrics (\<lambda>x. x) 5
              (start_orchestrator (\<lambda>x. x) 0 ''state-1'' init_orchestrator)) = Some q' \<and>
         consciousness_level q' = 0.701 \<and> quantum_coherence q' = 0.8005 \<and>
         neural_activity q' =
           [(''prefrontal_cortex'', 0.599), (''hippocampus'', 0.401),
            (''amygdala'', 0.302), (''neural_networks'', 0.797)])"
proof -
  let ?q = "initialize_quantum_state (\<lambda>x. x) 0 ''state-1''"
  let ?s = "start_orchestrator (\<lambda>x. x) 0 ''state-1'' init_orchestrator"
  have a: "quantum_state ?s = Some ?q" by (simp add: start_orchestrator_def)
  have b: "distinct (map fst (neural_activity ?q))"
    by (simp add: initialize_quantum_state_def)
  show ?thesis
    using a b tick_update_formula [OF a b, of "\<lambda>x. x" 5]
    by (auto simp: initialize_quantum_state_def flit_def fadd_def fsub_def fmul_def)
qed

subsection \<open>The velocity\<close>

lemma velocity_tick [simp]:
  "velocity (update_consciousness_metrics rnd now s) = velocity s"
  by (simp add: velocity_def update_consciousness_metrics_def split: option.splits)

lemma velocity_ok_tick [simp]:
  "velocity_ok rnd (update_consciousness_metrics rnd' now s) = velocity_ok rnd s"
  by (simp add: velocity_ok_def update_consciousness_metrics_def split: option.splits)

lemma velocity_scale:
  assumes "rounding_ok rnd" "unit_interval v" "rnd v = v"
  defines "w \<equiv> min (flit rnd 1.0) (fmul rnd v (flit rnd 1.001))"
  shows "v \<le> w" "unit_interval w" "rnd w = w" "w = min 1 (fmul rnd v (flit rnd 1.001))"
proof -
  have mono: "\<And>x y. x \<le> y \<Longrightarrow> rnd x \<le> rnd y" and idem: "\<And>x. rnd (rnd x) = rnd x"
    and one: "rnd 1 = 1"
    using assms(1) by (auto simp: rounding_ok_def)
  have "1 \<le> rnd 1.001" using mono [of 1 "1.001"] one by simp
  moreover have "0 \<le> v" "v \<le> 1" using assms(2) by (auto simp: unit_interval_def)
  ultimately have "v \<le> v * rnd 1.001" by (simp add: mult_le_cancel_left1)
  then have le: "v \<le> rnd (v * rnd 1.001)" using mono [of v "v * rnd 1.001"] assms(3) by simp
  show w: "w = min 1 (fmul rnd v (flit rnd 1.001))" by (simp add: w_def flit_def one)
  show "v \<le> w" using le \<open>v \<le> 1\<close> by (simp add: w fmul_def flit_def)
  show "unit_interval w" using le \<open>0 \<le> v\<close> by (simp add: w fmul_def flit_def unit_interval_def)
  show "rnd w = w" by (simp add: w fmul_def flit_def min_def one idem)
qed

lemma velocity_event:
  assumes "rounding_ok rnd" "velocity_ok rnd s"
  shows "\<exists>s'. update_quantum_state rnd s = Inr s' \<and> velocity_ok rnd s' \<and>
           velocity s' =
             (if active_tasks s = [] then velocity s
              else min 1 (fmul rnd (velocity s) (flit rnd 1.001))) \<and>
           velocity s \<le> velocity s' \<and> active_tasks s' = active_tasks s"
proof -
  obtain q where q: "quantum_state s = Some q" "unit_interval (learning_velocity q)"
      "rnd (learning_velocity q) = learning_velocity q"
    using assms(2) by (auto simp: velocity_ok_def split: option.splits)
  note sc = velocity_scale [OF assms(1) q(2) q(3)]
  show ?thesis
  proof (cases "active_tasks s = []")
    case True
    then show ?thesis using assms(2) by (simp add: update_quantum_state_def)
  next
    case False
    then show ?thesis
      using q sc(1,2,3) sc(4) [symmetric]
      by (simp add: update_quantum_state_def velocity_def velocity_ok_def)
  qed
qed

lemma velocity_process [simp]: "velocity (snd (process_task_queue now s)) = velocity s"
  by (simp add: velocity_def)

lemma velocity_ok_process [simp]:
  "velocity_ok rnd (snd (process_task_queue now s)) = velocity_ok rnd s"
  by (simp add: velocity_ok_def)

lemma velocity_iteration:
  assumes "rounding_ok rnd" "velocity_ok rnd s"
  shows "velocity_ok rnd (orchestration_iteration rnd now s) \<and>
         velocity s \<le> velocity (orchestration_iteration rnd now s)"
proof -
  obtain r s1 where p: "process_task_queue now s = (r, s1)"
    by (cases "process_task_queue now s")
  have v1: "velocity s1 = velocity s" and ok1: "velocity_ok rnd s1"
    using velocity_process [of now s] velocity_ok_process [of rnd now s] p assms(2) by simp_all
  from velocity_event [OF assms(1) ok1]
  obtain s2 where "update_quantum_state rnd s1 = Inr s2" "velocity_ok rnd s2"
      "velocity s1 \<le> velocity s2"
    by blast
  then show ?thesis
    using p v1 ok1
    by (cases r) (simp_all add: orchestration_iteration_def velocity_ok_def velocity_def)
qed

lemma velocity_action:
  assumes "rounding_ok rnd" "velocity_ok rnd s"
  shows "velocity_ok rnd (apply_action rnd s a) \<and> velocity s \<le> velocity (apply_action rnd s a)"
proof (cases a)
  case (Tick t)
  then show ?thesis using assms(2) by simp
next
  case Event
  then show ?thesis using velocity_event [OF assms] by auto
next
  case (Iterate t)
  then show ?thesis using velocity_iteration [OF assms] by simp
next
  case (Submit task)
  then show ?thesis using assms(2) by (simp add: submit_task_def velocity_ok_def velocity_def)
qed

lemma velocity_ok_run:
  "rounding_ok rnd \<Longrightarrow> velocity_ok rnd s \<Longrightarrow> velocity_ok rnd (run rnd s acts)"
  unfolding run_def
  by (induction acts arbitrary: s) (simp_all add: velocity_action)

lemma velocity_ok_start:
  assumes "rounding_ok rnd"
  shows "velocity_ok rnd (start_orchestrator rnd now sid s)"
proof -
  have "unit_interval (rnd 0.1)"
    using rounding_unit [OF assms, of "0.1"] by (simp add: unit_interval_def)
  moreover have "rnd (rnd 0.1) = rnd 0.1" using assms by (simp add: rounding_ok_def)
  ultimately show ?thesis
    by (simp add: velocity_ok_def start_orchestrator_def initialize_quantum_state_def flit_def)
qed

text \<open>
  Claim C6. In every state \<open>s\<close> that a started orchestrator reaches, no step lowers the
  velocity metric \<^verbatim>\<open>learning_velocity\<close> and it stays at most 1: a tick leaves it as it
  is, and the event-driven update returns normally, multiplies it by 1.001 clamped at
  1.0 when at least one task is in \<^verbatim>\<open>active_tasks\<close>, and leaves it unchanged when there is
  none.
\<close>

theorem velocity_never_decreases:
  assumes "rounding_ok rnd"
    and "s = run rnd (start_orchestrator rnd now sid s0) acts"
  shows "velocity s \<le> velocity (apply_action rnd s a) \<and>
         velocity (apply_action rnd s a) \<le> 1 \<and>
         velocity (update_consciousness_metrics rnd t s) = velocity s \<and>
         (\<exists>s'. update_quantum_state rnd s = Inr s' \<and>
               velocity s' =
                 (if length (active_tasks s) > 0
                  then min 1 (fmul rnd (velocity s) (flit rnd 1.001))
                  else velocity s) \<and>
               velocity s \<le> velocity s')"
proof -
  have ok: "velocity_ok rnd s"
    using assms velocity_ok_run velocity_ok_start by simp
  have "velocity_ok rnd (apply_action rnd s a)" using velocity_action [OF assms(1) ok] by simp
  then have "velocity (apply_action rnd s a) \<le> 1"
    by (auto simp: velocity_ok_def velocity_def unit_interval_def split: option.splits)
  moreover have "velocity s \<le> velocity (apply_action rnd s a)"
    using velocity_action [OF assms(1) ok] by simp
  moreover obtain s' where "update_quantum_state rnd s = Inr s'"
      "velocity s' =
         (if active_tasks s = [] then velocity s
          else min 1 (fmul rnd (velocity s) (flit rnd 1.001)))"
      "velocity s \<le> velocity s'"
    using velocity_event [OF assms(1) ok] by blast
  ultimately show ?thesis by auto
qed


theorem velocity_never_decreases_witness:
  "rounding_ok (\<lambda>x. x) \<and>
   velocity (run (\<lambda>x. x) (start_orchestrator (\<lambda>x. x) 0 ''state-1'' init_orchestrator)
               [Submit task_low]) \<le>
   velocity (apply_action (\<lambda>x. x)
               (run (\<lambda>x. x) (start_orchestrator (\<lambda>x. x) 0 ''state-1'' init_orchestrator)
                  [Submit task_low])
               (Iterate 1))"
proof -
  have h: "rounding_ok (\<lambda>x. x)" by (simp add: rounding_ok_def)
  show ?thesis
    using h velocity_never_decreases
      [OF h refl, of 0 "''state-1''" init_orchestrator "[Submit task_low]" "Iterate 1" 0]
    by simp
qed

section \<open>The task queue and the task pipeline\<close>

lemma route_indep:
  "quantum_state s' = quantum_state s \<Longrightarrow> task_type t' = task_type t \<Longrightarrow>
   model_preference t' = model_preference t \<Longrightarrow>
   route_to_ai_model s' t' = route_to_ai_model s t"
  by (simp add: route_to_ai_model_def trinity_hybrid_inference_def claude_inference_def
      local_llama_inference_def fallback_inference_def split: option.splits)

lemma map_of_update_same: "map_of (AList.update k v al) k = Some v"
  by (simp add: update_conv')

lemma execute_ai_task_body_failure:
  assumes "execute_try now
             (s\<lparr>active_tasks :=
                  AList.update (task_id task) (task\<lparr>status := ''running''\<rparr>) (active_tasks s)\<rparr>)
             (task\<lparr>status := ''running''\<rparr>) = Inl e"
  shows "execute_ai_task_body now s task =
     s\<lparr>active_tasks := AList.update (task_id task) (task\<lparr>status := ''failed''\<rparr>) (active_tasks s),
       result_store := (result_store s)(task_id task \<mapsto> Failed (str_exn e) now)\<rparr>"
  using assms by (simp add: execute_ai_task_body_def Let_def)

lemma execute_try_route_failure:
  assumes "route_to_ai_model s task = Inl e"
  shows "execute_try now
           (s\<lparr>active_tasks :=
                AList.update (task_id task) (task\<lparr>status := ''running''\<rparr>) (active_tasks s)\<rparr>)
           (task\<lparr>status := ''running''\<rparr>) = Inl e"
proof -
  let ?running = "task\<lparr>status := ''running''\<rparr>"
  let ?s1 = "s\<lparr>active_tasks := AList.update (task_id task) ?running (active_tasks s)\<rparr>"
  have "route_to_ai_model ?s1 ?running = Inl e"
    using assms route_indep [of ?s1 s ?running task] by simp
  then show ?thesis by (simp add: execute_try_def)
qed

lemma execute_try_no_state:
  assumes "quantum_state s = None" and "route_to_ai_model s task = Inr r"
  shows "execute_try now
           (s\<lparr>active_tasks :=
                AList.update (task_id task) (task\<lparr>status := ''running''\<rparr>) (active_tasks s)\<rparr>)
           (task\<lparr>status := ''running''\<rparr>) = Inl (none_has_no_attribute ''to_dict'')"
proof -
  let ?running = "task\<lparr>status := ''running''\<rparr>"
  let ?s1 = "s\<lparr>active_tasks := AList.update (task_id task) ?running (active_tasks s)\<rparr>"
  have "route_to_ai_model ?s1 ?running = Inr r"
    using assms(2) route_indep [of ?s1 s ?running task] by simp
  then show ?thesis using assms(1) by (simp add: execute_try_def)
qed

lemma execute_ai_task_body_success:
  assumes "quantum_state s = Some q"
  shows "\<exists>r. route_to_ai_model s task = Inr r \<and> execute_ai_task_body now s task =
     s\<lparr>result_store := (result_store s)(task_id task \<mapsto> Completed r now q),
       active_tasks := AList.update (task_id task) (task\<lparr>status := ''completed''\<rparr>) (active_tasks s)\<rparr>"
proof -
  let ?running = "task\<lparr>status := ''running''\<rparr>"
  let ?s1 = "s\<lparr>active_tasks := AList.update (task_id task) ?running (active_tasks s)\<rparr>"
  obtain r where r: "route_to_ai_model s task = Inr r"
    using assms by (cases "route_to_ai_model s task")
      (auto simp: route_to_ai_model_def trinity_hybrid_inference_def split: if_splits)
  then have "route_to_ai_model ?s1 ?running = Inr r"
    using route_indep [of ?s1 s ?running task] by simp
  then have "execute_try now ?s1 ?running =
      Inr (?s1\<lparr>result_store := (result_store ?s1)(task_id ?running \<mapsto> Completed r now q),
               active_tasks := AList.update (task_id ?running) (?running\<lparr>status := ''completed''\<rparr>)
                  (active_tasks ?s1)\<rparr>)"
    using assms by (simp add: execute_try_def)
  then show ?thesis using r by (simp add: execute_ai_task_body_def Let_def)
qed

lemma result_store_execute_dom:
  "dom (result_store (execute_ai_task_body now s task)) =
     insert (task_id task) (dom (result_store s))"
  by (auto simp: execute_ai_task_body_def execute_try_def Let_def
      split: sum.splits option.splits if_splits)

lemma result_store_foldl_dom:
  "dom (result_store (foldl (execute_ai_task_body now) s ts)) =
     task_id ` set ts \<union> dom (result_store s)"
  by (induction ts arbitrary: s) (auto simp: result_store_execute_dom)

lemma task_queue_execute_ai_task_body [simp]:
  "task_queue (execute_ai_task_body now s task) = task_queue s"
  by (simp add: execute_ai_task_body_def execute_try_def Let_def split: sum.splits option.splits)

lemma execute_ai_task_body_queue_indep:
  "execute_ai_task_body now (s\<lparr>task_queue := q\<rparr>) task =
     (execute_ai_task_body now s task)\<lparr>task_queue := q\<rparr>"
  by (simp add: execute_ai_task_body_def execute_try_def route_to_ai_model_def
      trinity_hybrid_inference_def Let_def split: option.splits)

lemma foldl_body_queue_indep:
  "foldl (execute_ai_task_body now) (s\<lparr>task_queue := q\<rparr>) ts =
     (foldl (execute_ai_task_body now) s ts)\<lparr>task_queue := q\<rparr>"
  by (induction ts arbitrary: s) (simp_all add: execute_ai_task_body_queue_indep)

lemma task_queue_foldl_execute [simp]:
  "task_queue (foldl (execute_ai_task_body now) s ts) = task_queue s"
  by (induction ts arbitrary: s) simp_all

text \<open>
  The drain in closed form: the tasks in front of the first task without a model hint
  are executed in the order of the queue; that task is taken off the queue and raises;
  the tasks behind it stay on the queue.
\<close>

lemma process_task_queue_drain_aux:
  "task_queue s = q \<Longrightarrow>
   process_task_queue now s =
     (case dropWhile has_hint q of
        [] \<Rightarrow> (None, (foldl (execute_ai_task_body now) s q)\<lparr>task_queue := []\<rparr>)
      | t # behind \<Rightarrow>
          (Some (none_has_no_attribute ''value''),
           (foldl (execute_ai_task_body now) s (takeWhile has_hint q))\<lparr>task_queue := behind\<rparr>))"
proof (induction q arbitrary: s)
  case Nil
  have "s\<lparr>task_queue := task_queue s\<rparr> = s" by simp
  then have "s\<lparr>task_queue := []\<rparr> = s" using Nil by simp
  then show ?case using Nil by (simp add: process_task_queue.simps [of now s] queue_get_def)
next
  case (Cons t rest)
  have g: "queue_get (task_queue s) = Some (t, rest)" using Cons.prems by (simp add: queue_get_def)
  show ?case
  proof (cases "model_preference t")
    case None
    then have "execute_ai_task now (s\<lparr>task_queue := rest\<rparr>) t = Inl (none_has_no_attribute ''value'')"
      by (simp add: execute_ai_task_def)
    moreover have "\<not> has_hint t" using None by (simp add: has_hint_def)
    ultimately show ?thesis
      using g by (simp add: process_task_queue.simps [of now s])
  next
    case (Some m)
    then have hint: "has_hint t" by (simp add: has_hint_def)
    let ?s' = "execute_ai_task_body now (s\<lparr>task_queue := rest\<rparr>) t"
    have e: "execute_ai_task now (s\<lparr>task_queue := rest\<rparr>) t = Inr ?s'"
      using Some by (simp add: execute_ai_task_def)
    have s': "?s' = (execute_ai_task_body now s t)\<lparr>task_queue := rest\<rparr>"
      by (rule execute_ai_task_body_queue_indep)
    have "process_task_queue now s = process_task_queue now ?s'"
      using g e by (simp add: process_task_queue.simps [of now s])
    also have "\<dots> =
      (case dropWhile has_hint rest of
         [] \<Rightarrow> (None, (foldl (execute_ai_task_body now) ?s' rest)\<lparr>task_queue := []\<rparr>)
       | t # behind \<Rightarrow>
           (Some (none_has_no_attribute ''value''),
            (foldl (execute_ai_task_body now) ?s' (takeWhile has_hint rest))
              \<lparr>task_queue := behind\<rparr>))"
      by (rule Cons.IH) simp
    finally have eq: "process_task_queue now s =
      (case dropWhile has_hint rest of
         [] \<Rightarrow> (None, (foldl (execute_ai_task_body now) ?s' rest)\<lparr>task_queue := []\<rparr>)
       | t # behind \<Rightarrow>
           (Some (none_has_no_attribute ''value''),
            (foldl (execute_ai_task_body now) ?s' (takeWhile has_hint rest))
              \<lparr>task_queue := behind\<rparr>))" .
    have dw: "dropWhile has_hint (t # rest) = dropWhile has_hint rest"
      "takeWhile has_hint (t # rest) = t # takeWhile has_hint rest"
      using hint by simp_all
    show ?thesis
      unfolding eq dw
      by (simp add: s' foldl_body_queue_indep cong: list.case_cong)
  qed
qed

lemma process_task_queue_drain:
  "process_task_queue now s =
     (case dropWhile has_hint (task_queue s) of
        [] \<Rightarrow> (None, (foldl (execute_ai_task_body now) s (task_queue s))\<lparr>task_queue := []\<rparr>)
      | t # behind \<Rightarrow>
          (Some (none_has_no_attribute ''value''),
           (foldl (execute_ai_task_body now) s (takeWhile has_hint (task_queue s)))
             \<lparr>task_queue := behind\<rparr>))"
  by (rule process_task_queue_drain_aux) simp

lemma process_task_queue_all_hinted:
  assumes "list_all has_hint (task_queue s)"
  shows "process_task_queue now s =
           (None, (foldl (execute_ai_task_body now) s (task_queue s))\<lparr>task_queue := []\<rparr>)"
proof -
  have d: "dropWhile has_hint (task_queue s) = []"
    using assms by (simp add: list_all_iff)
  show ?thesis unfolding process_task_queue_drain [of now s] d by simp
qed

subsection \<open>Submission\<close>

text \<open>
  Claim C3, as the source has it: \<^verbatim>\<open>submit_task\<close> validates nothing. A task with no
  identifier, no kind and no payload is put on the queue and \<^verbatim>\<open>None\<close> comes back as its
  identifier; nothing is rejected and no \<^verbatim>\<open>ValidationError\<close> exists.
\<close>

theorem submit_task_rejects_nothing:
  "submit_task init_orchestrator anonymous_task =
     (init_orchestrator\<lparr>task_queue := [anonymous_task]\<rparr>, None)"
  by (simp add: submit_task_def queue_put_def init_orchestrator_def anonymous_task_def)

text \<open>
  Claim C3, amended: for every task, well-formed or not, \<^verbatim>\<open>submit_task\<close> appends the task at
  the tail of the unbounded queue, changes nothing else, and returns the task's
  \<^verbatim>\<open>task_id\<close>.
\<close>

theorem submit_task_enqueues:
  "submit_task s task = (s\<lparr>task_queue := task_queue s @ [task]\<rparr>, task_id task)"
  by (simp add: submit_task_def queue_put_def)

subsection \<open>Order of dequeue\<close>

text \<open>
  Claim C1, as the source has it: the queue is a plain \<^verbatim>\<open>asyncio.Queue\<close>. With a task of
  priority 1 submitted before a task of priority 9, both in the queue, the dequeue
  yields the task of priority 1 and leaves the task of priority 9 waiting.
\<close>

theorem higher_priority_dequeued_later:
  "priority task_low < priority task_high \<and>
   queue_get (task_queue (fst (submit_task (fst (submit_task init_orchestrator task_low)) task_high)))
     = Some (task_low, [task_high])"
  by (simp add: submit_task_def queue_put_def queue_get_def init_orchestrator_def
      task_low_def task_high_def example_task_def)

text \<open>
  Claim C1, amended: tasks are dequeued in submission (FIFO) order, whatever their
  priority. A submission goes to the tail of the queue and a dequeue takes the head.
  \<^verbatim>\<open>_process_task_queue\<close> executes the queued tasks one after the other in the order of the
  queue. When every queued task has a model hint it returns with the queue empty. At the
  first task without a model hint it stops: that task is off the queue, the
  \<^verbatim>\<open>AttributeError\<close> of its execution leaves the drain, and the tasks behind it stay on
  the queue in their order.
\<close>

theorem dequeue_is_fifo:
  "task_queue (fst (submit_task s task)) = task_queue s @ [task] \<and>
   queue_get (task # rest) = Some (task, rest) \<and>
   process_task_queue now s =
     (case dropWhile has_hint (task_queue s) of
        [] \<Rightarrow> (None, (foldl (execute_ai_task_body now) s (task_queue s))\<lparr>task_queue := []\<rparr>)
      | t # behind \<Rightarrow>
          (Some (none_has_no_attribute ''value''),
           (foldl (execute_ai_task_body now) s (takeWhile has_hint (task_queue s)))
             \<lparr>task_queue := behind\<rparr>))"
  using process_task_queue_drain [of now s]
  by (simp add: submit_task_def queue_put_def queue_get_def)

subsection \<open>Dependencies\<close>

text \<open>
  Claim C2, as the source has it: \<^verbatim>\<open>dependencies\<close> is never read. Scenario A: task t2
  depends on t1 and is submitted first; it is dequeued first, dispatched to its backend
  and completed while t1 has no result yet. Scenario B: t1 has failed; t2, which depends
  on it, is dispatched all the same and reaches status completed.
\<close>

theorem dependent_task_dispatched_anyway:
  "queue_get (task_queue dependent_first) = Some (task_dependent, [task_first]) \<and>
   execute_ai_task 1 (dependent_first\<lparr>task_queue := [task_first]\<rparr>) task_dependent =
     Inr dependent_dispatched \<and>
   get_task_result dependent_dispatched (Some ''t2'') =
     Some (Completed (claude_inference task_dependent) 1
             (initialize_quantum_state (\<lambda>x. x) 0 ''state-1'')) \<and>
   get_task_result dependent_dispatched (Some ''t1'') = None \<and>
   get_task_result dependency_failed (Some ''t1'') =
     Some (Failed (CHR 0x27 # ''NoneType'' @ CHR 0x27 # '' object has no attribute '' @
                   CHR 0x27 # ''quantum_coherence'' @ [CHR 0x27]) 0) \<and>
   fst (process_task_queue 2 dependency_failed) = None \<and>
   get_task_result (snd (process_task_queue 2 dependency_failed)) (Some ''t2'') =
     Some (Completed (claude_inference task_dependent) 2
             (initialize_quantum_state (\<lambda>x. x) 1 ''state-1'')) \<and>
   map_of (active_tasks (snd (process_task_queue 2 dependency_failed))) (Some ''t2'') =
     Some (task_dependent\<lparr>status := ''completed''\<rparr>)"
  by (simp add: dependent_first_def dependent_dispatched_def dependency_failed_def
      submit_task_def queue_put_def queue_get_def start_orchestrator_def init_orchestrator_def
      get_task_result_def execute_ai_task_def execute_ai_task_body_def execute_try_def
      route_to_ai_model_def trinity_hybrid_inference_def none_has_no_attribute_def
      claude_inference_def process_task_queue.simps
      task_first_def task_dependent_def example_task_def Let_def)

text \<open>
  Claim C2, amended: the dependency list is stored and never consulted. The drain
  executes the head of the queue whatever tasks it names. What the execution does is
  fixed by the model hint of the task and by the presence of a state vector alone.
  Without a hint it raises an \<^verbatim>\<open>AttributeError\<close> before the task boundary and writes
  nothing. With a hint and a state vector the task is dispatched to the backend of its
  hint, reaches status completed, and the backend's answer is stored. With a hint and no
  state vector it reaches status failed, and the stored error is the text of the
  \<^verbatim>\<open>AttributeError\<close> of its own pipeline: there is no other reason, in particular none
  that names a dependency. The result store after the execution is the same for every
  dependency list.
\<close>

theorem dependencies_never_consulted:
  "execute_ai_task now s task =
     (case model_preference task of
        None \<Rightarrow>
          Inl (AttributeError
                 (CHR 0x27 # ''NoneType'' @ CHR 0x27 # '' object has no attribute '' @
                  CHR 0x27 # ''value'' @ [CHR 0x27]))
      | Some m \<Rightarrow>
          (case quantum_state s of
             None \<Rightarrow>
               Inr (s\<lparr>active_tasks :=
                        AList.update (task_id task) (task\<lparr>status := ''failed''\<rparr>) (active_tasks s),
                      result_store :=
                        (result_store s)
                          (task_id task \<mapsto>
                             Failed (CHR 0x27 # ''NoneType'' @ CHR 0x27 #
                                     '' object has no attribute '' @ CHR 0x27 #
                                     (if m = TRINITY_HYBRID then ''quantum_coherence''
                                      else ''to_dict'') @ [CHR 0x27]) now)\<rparr>)
           | Some q \<Rightarrow>
               Inr (s\<lparr>result_store :=
                        (result_store s)
                          (task_id task \<mapsto>
                             Completed
                               (case m of
                                  TRINITY_HYBRID \<Rightarrow>
                                    \<lparr>model = ''trinity-consciousness-v1'',
                                     output_text =
                                       ''Trinity consciousness response for '' @ task_type task,
                                     confidence = 0.95,
                                     result_quantum_coherence = Some (quantum_coherence q),
                                     result_consciousness_level = Some (consciousness_level q)\<rparr>
                                | CLAUDE_SONNET \<Rightarrow> claude_inference task
                                | LOCAL_LLAMA \<Rightarrow> local_llama_inference task
                                | GPT4_TURBO \<Rightarrow> fallback_inference task
                                | GEMINI_PRO \<Rightarrow> fallback_inference task)
                               now q),
                      active_tasks :=
                        AList.update (task_id task) (task\<lparr>status := ''completed''\<rparr>)
                          (active_tasks s)\<rparr>))) \<and>
   map_sum id result_store (execute_ai_task now s (task\<lparr>dependencies := deps\<rparr>)) =
     map_sum id result_store (execute_ai_task now s task) \<and>
   process_task_queue now (s\<lparr>task_queue := task # rest\<rparr>) =
     (case execute_ai_task now (s\<lparr>task_queue := rest\<rparr>) task of
        Inl e \<Rightarrow> (Some e, s\<lparr>task_queue := rest\<rparr>)
      | Inr s' \<Rightarrow> process_task_queue now s')"
proof -
  have a: "execute_ai_task now s t =
     (case model_preference t of
        None \<Rightarrow>
          Inl (AttributeError
                 (CHR 0x27 # ''NoneType'' @ CHR 0x27 # '' object has no attribute '' @
                  CHR 0x27 # ''value'' @ [CHR 0x27]))
      | Some m \<Rightarrow>
          (case quantum_state s of
             None \<Rightarrow>
               Inr (s\<lparr>active_tasks :=
                        AList.update (task_id t) (t\<lparr>status := ''failed''\<rparr>) (active_tasks s),
                      result_store :=
                        (result_store s)
                          (task_id t \<mapsto>
                             Failed (CHR 0x27 # ''NoneType'' @ CHR 0x27 #
                                     '' object has no attribute '' @ CHR 0x27 #
                                     (if m = TRINITY_HYBRID then ''quantum_coherence''
                                      else ''to_dict'') @ [CHR 0x27]) now)\<rparr>)
           | Some q \<Rightarrow>
               Inr (s\<lparr>result_store :=
                        (result_store s)
                          (task_id t \<mapsto>
                             Completed
                               (case m of
                                  TRINITY_HYBRID \<Rightarrow>
                                    \<lparr>model = ''trinity-consciousness-v1'',
                                     output_text =
                                       ''Trinity consciousness response for '' @ task_type t,
                                     confidence = 0.95,
                                     result_quantum_coherence = Some (quantum_coherence q),
                                     result_consciousness_level = Some (consciousness_level q)\<rparr>
                                | CLAUDE_SONNET \<Rightarrow> claude_inference t
                                | LOCAL_LLAMA \<Rightarrow> local_llama_inference t
                                | GPT4_TURBO \<Rightarrow> fallback_inference t
                                | GEMINI_PRO \<Rightarrow> fallback_inference t)
                               now q),
                      active_tasks :=
                        AList.update (task_id t) (t\<lparr>status := ''completed''\<rparr>)
                          (active_tasks s)\<rparr>)))" for t
  proof (cases "model_preference t")
    case None
    then show ?thesis by (simp add: execute_ai_task_def none_has_no_attribute_def)
  next
    case (Some m)
    show ?thesis
    proof (cases "quantum_state s")
      case None
      show ?thesis
      proof (cases "m = TRINITY_HYBRID")
        case True
        have "route_to_ai_model s t = Inl (none_has_no_attribute ''quantum_coherence'')"
          using True Some None by (simp add: route_to_ai_model_def trinity_hybrid_inference_def)
        from execute_ai_task_body_failure [OF execute_try_route_failure [OF this]]
        show ?thesis
          using True Some None by (simp add: execute_ai_task_def none_has_no_attribute_def)
      next
        case False
        obtain r where "route_to_ai_model s t = Inr r"
          using False Some by (cases m) (simp_all add: route_to_ai_model_def)
        from execute_ai_task_body_failure [OF execute_try_no_state [OF None this]]
        show ?thesis
          using False Some None by (simp add: execute_ai_task_def none_has_no_attribute_def)
      qed
    next
      case (Some q)
      obtain r where r: "route_to_ai_model s t = Inr r"
        "execute_ai_task_body now s t =
           s\<lparr>result_store := (result_store s)(task_id t \<mapsto> Completed r now q),
             active_tasks := AList.update (task_id t) (t\<lparr>status := ''completed''\<rparr>) (active_tasks s)\<rparr>"
        using execute_ai_task_body_success [OF Some] by blast
      have "r = (case m of
                   TRINITY_HYBRID \<Rightarrow>
                     \<lparr>model = ''trinity-consciousness-v1'',
                      output_text = ''Trinity consciousness response for '' @ task_type t,
                      confidence = 0.95,
                      result_quantum_coherence = Some (quantum_coherence q),
                      result_consciousness_level = Some (consciousness_level q)\<rparr>
                 | CLAUDE_SONNET \<Rightarrow> claude_inference t
                 | LOCAL_LLAMA \<Rightarrow> local_llama_inference t
                 | GPT4_TURBO \<Rightarrow> fallback_inference t
                 | GEMINI_PRO \<Rightarrow> fallback_inference t)"
        using r(1) Some \<open>model_preference t = Some m\<close>
        by (cases m) (simp_all add: route_to_ai_model_def trinity_hybrid_inference_def)
      then show ?thesis
        using r(2) Some \<open>model_preference t = Some m\<close> by (simp add: execute_ai_task_def)
    qed
  qed
  have b: "map_sum id result_store (execute_ai_task now s (task\<lparr>dependencies := deps\<rparr>)) =
           map_sum id result_store (execute_ai_task now s task)"
    unfolding a [of "task\<lparr>dependencies := deps\<rparr>"] a [of task]
    by (simp add: claude_inference_def local_llama_inference_def fallback_inference_def
        split: option.splits AIModel.splits)
  have c: "process_task_queue now (s\<lparr>task_queue := task # rest\<rparr>) =
     (case execute_ai_task now (s\<lparr>task_queue := rest\<rparr>) task of
        Inl e \<Rightarrow> (Some e, s\<lparr>task_queue := rest\<rparr>)
      | Inr s' \<Rightarrow> process_task_queue now s')"
    by (simp add: process_task_queue.simps [of now "s\<lparr>task_queue := task # rest\<rparr>"] queue_get_def
        cong: sum.case_cong)
  from a [of task] b c show ?thesis by blast
qed

subsection \<open>Failure of a task\<close>

text \<open>
  Claim C9. When the routing or backend call of a task raises, the exception is caught
  at the task boundary: \<^verbatim>\<open>_execute_ai_task\<close> returns normally, in the state it returns the
  task's status is failed and the result stored under its identifier (and returned by
  \<^verbatim>\<open>get_task_result\<close>) is the failure record that holds the text of the exception, and the
  drain of the queue goes on with the tasks behind it as it would after any other task:
  when each of them has a model hint it ends normally with the queue empty and a stored
  result for every task. (In this source the routing raises only in the hybrid backend,
  when there is no state vector; the text is that of its \<^verbatim>\<open>AttributeError\<close>.)
\<close>

theorem failure_caught_at_task_boundary:
  assumes "route_to_ai_model s task = Inl e"
  shows "\<exists>s'. execute_ai_task now s task = Inr s' \<and>
           map_of (active_tasks s') (task_id task) = Some (task\<lparr>status := ''failed''\<rparr>) \<and>
           get_task_result s' (task_id task) =
             Some (Failed (CHR 0x27 # ''NoneType'' @ CHR 0x27 # '' object has no attribute '' @
                           CHR 0x27 # ''quantum_coherence'' @ [CHR 0x27]) now) \<and>
           process_task_queue now (s\<lparr>task_queue := task # rest\<rparr>) =
             process_task_queue now (s'\<lparr>task_queue := rest\<rparr>) \<and>
           (list_all has_hint rest \<longrightarrow>
              fst (process_task_queue now (s\<lparr>task_queue := task # rest\<rparr>)) = None \<and>
              task_queue (snd (process_task_queue now (s\<lparr>task_queue := task # rest\<rparr>))) = [] \<and>
              list_all (\<lambda>t. get_task_result
                               (snd (process_task_queue now (s\<lparr>task_queue := task # rest\<rparr>)))
                               (task_id t) \<noteq> None) (task # rest))"
proof -
  let ?s = "s\<lparr>task_queue := task # rest\<rparr>"
  let ?s' = "execute_ai_task_body now s task"
  have hyb: "model_preference task = Some TRINITY_HYBRID" and e: "e = none_has_no_attribute ''quantum_coherence''"
    using assms
    by (auto simp: route_to_ai_model_def trinity_hybrid_inference_def split: if_splits option.splits)
  have body: "?s' =
     s\<lparr>active_tasks := AList.update (task_id task) (task\<lparr>status := ''failed''\<rparr>) (active_tasks s),
       result_store := (result_store s)(task_id task \<mapsto> Failed (str_exn e) now)\<rparr>"
    by (rule execute_ai_task_body_failure [OF execute_try_route_failure [OF assms]])
  have ex: "execute_ai_task now s task = Inr ?s'"
    using hyb by (simp add: execute_ai_task_def)
  have a: "map_of (active_tasks ?s') (task_id task) = Some (task\<lparr>status := ''failed''\<rparr>)"
    by (simp add: body map_of_update_same)
  have b: "get_task_result ?s' (task_id task) =
             Some (Failed (CHR 0x27 # ''NoneType'' @ CHR 0x27 # '' object has no attribute '' @
                           CHR 0x27 # ''quantum_coherence'' @ [CHR 0x27]) now)"
    by (simp add: body e get_task_result_def none_has_no_attribute_def)
  have "execute_ai_task now (s\<lparr>task_queue := rest\<rparr>) task = Inr (?s'\<lparr>task_queue := rest\<rparr>)"
    using hyb by (simp add: execute_ai_task_def execute_ai_task_body_queue_indep)
  then have c: "process_task_queue now ?s = process_task_queue now (?s'\<lparr>task_queue := rest\<rparr>)"
    by (simp add: process_task_queue.simps [of now ?s] queue_get_def)
  have d: "fst (process_task_queue now ?s) = None \<and>
           task_queue (snd (process_task_queue now ?s)) = [] \<and>
           list_all (\<lambda>t. get_task_result (snd (process_task_queue now ?s)) (task_id t) \<noteq> None)
             (task # rest)"
    if "list_all has_hint rest"
  proof -
    have "list_all has_hint (task_queue ?s)" using that hyb by (simp add: has_hint_def)
    from process_task_queue_all_hinted [OF this, of now]
    have p: "process_task_queue now ?s =
               (None, (foldl (execute_ai_task_body now) ?s (task # rest))\<lparr>task_queue := []\<rparr>)"
      by simp
    have "dom (result_store (snd (process_task_queue now ?s))) =
            task_id ` set (task # rest) \<union> dom (result_store s)"
      unfolding p by (simp add: result_store_foldl_dom result_store_execute_dom)
    then have "task_id t \<in> dom (result_store (snd (process_task_queue now ?s)))"
      if "t \<in> set (task # rest)" for t
      using that by blast
    then have "list_all (\<lambda>t. get_task_result (snd (process_task_queue now ?s)) (task_id t) \<noteq> None)
                 (task # rest)"
      unfolding list_all_iff get_task_result_def by blast
    then show ?thesis by (simp add: p)
  qed
  from ex a b c d show ?thesis by blast
qed

theorem failure_caught_at_task_boundary_witness:
  "route_to_ai_model init_orchestrator task_first = Inl (none_has_no_attribute ''quantum_coherence'') \<and>
   list_all has_hint [task_low] \<and>
   (\<exists>s'. execute_ai_task 7 init_orchestrator task_first = Inr s' \<and>
         get_task_result s' (Some ''t1'') =
           Some (Failed (CHR 0x27 # ''NoneType'' @ CHR 0x27 # '' object has no attribute '' @
                         CHR 0x27 # ''quantum_coherence'' @ [CHR 0x27]) 7)) \<and>
   fst (process_task_queue 7 (init_orchestrator\<lparr>task_queue := [task_first, task_low]\<rparr>)) = None \<and>
   get_task_result
     (snd (process_task_queue 7 (init_orchestrator\<lparr>task_queue := [task_first, task_low]\<rparr>)))
     (Some ''low'') \<noteq> None"
proof -
  have h: "route_to_ai_model init_orchestrator task_first =
           Inl (none_has_no_attribute ''quantum_coherence'')"
    by (simp add: route_to_ai_model_def trinity_hybrid_inference_def init_orchestrator_def
        task_first_def example_task_def)
  have l: "list_all has_hint [task_low]"
    by (simp add: has_hint_def task_low_def example_task_def)
  have ids: "task_id task_first = Some ''t1''" "task_id task_low = Some ''low''"
    by (simp_all add: task_first_def task_low_def example_task_def)
  obtain s' where s': "execute_ai_task 7 init_orchestrator task_first = Inr s'"
      "get_task_result s' (task_id task_first) =
         Some (Failed (CHR 0x27 # ''NoneType'' @ CHR 0x27 # '' object has no attribute '' @
                       CHR 0x27 # ''quantum_coherence'' @ [CHR 0x27]) 7)"
      "list_all has_hint [task_low] \<longrightarrow>
         fst (process_task_queue 7 (init_orchestrator\<lparr>task_queue := [task_first, task_low]\<rparr>)) = None \<and>
         task_queue (snd (process_task_queue 7
                            (init_orchestrator\<lparr>task_queue := [task_first, task_low]\<rparr>))) = [] \<and>
         list_all (\<lambda>t. get_task_result
                          (snd (process_task_queue 7
                                  (init_orchestrator\<lparr>task_queue := [task_first, task_low]\<rparr>)))
                          (task_id t) \<noteq> None) [task_first, task_low]"
    using failure_caught_at_task_boundary [OF h, of 7 "[task_low]"] by blast
  from s'(3) l have "fst (process_task_queue 7
                            (init_orchestrator\<lparr>task_queue := [task_first, task_low]\<rparr>)) = None"
    and "get_task_result
           (snd (process_task_queue 7 (init_orchestrator\<lparr>task_queue := [task_first, task_low]\<rparr>)))
           (Some ''low'') \<noteq> None"
    by (simp_all add: ids)
  then show ?thesis using h l s'(1,2) by (auto simp: ids)
qed

section \<open>The response cache\<close>

subsection \<open>The cache key does not depend on the order of the fields\<close>

lemma sorted_fields_keys:
  assumes "distinct (map fst xs)" "distinct (map fst ys)" "fst ` set xs = fst ` set ys"
  shows "map fst (sort_key fst xs) = map fst (sort_key fst ys)"
proof -
  have d: "distinct (map fst (sort_key fst xs))" "distinct (map fst (sort_key fst ys))"
    using assms(1,2) by (simp_all add: distinct_map)
  show ?thesis
  proof (rule sorted_distinct_set_unique)
    show "set (map fst (sort_key fst xs)) = set (map fst (sort_key fst ys))"
      using assms(3) by simp
  qed (simp_all add: d)
qed

lemma same_keys:
  assumes "distinct (map fst xs)" "distinct (map fst ys)" "length xs = length ys"
    and "\<And>p. p \<in> set xs \<Longrightarrow> map_of ys (fst p) \<noteq> None"
  shows "fst ` set xs = fst ` set ys"
proof -
  have sub: "fst ` set xs \<subseteq> fst ` set ys"
    using assms(4) by (force simp: map_of_eq_None_iff)
  have "card (fst ` set xs) = length xs" "card (fst ` set ys) = length ys"
    using assms(1,2) distinct_card [of "map fst xs"] distinct_card [of "map fst ys"] by simp_all
  then show ?thesis using sub assms(3) by (simp add: card_subset_eq)
qed

lemma json_dumps_sorted_same_structure:
  "wf_json a \<Longrightarrow> wf_json b \<Longrightarrow> same_structure a b \<Longrightarrow> json_dumps_sorted a = json_dumps_sorted b"
proof (induction a b rule: same_structure.induct)
  case (1 xs ys)
  have "list_all2 (\<lambda>x y. json_dumps_sorted x = json_dumps_sorted y) xs ys"
  proof (rule list.rel_mono_strong)
    show "list_all2 same_structure xs ys" using "1.prems"(3) by simp
  next
    fix x y assume "x \<in> set xs" "y \<in> set ys" "same_structure x y"
    then show "json_dumps_sorted x = json_dumps_sorted y"
      using "1.IH" "1.prems"(1,2) by (simp add: list_all_iff)
  qed
  then have "map json_dumps_sorted xs = map json_dumps_sorted ys"
    by (induction rule: list_all2_induct) simp_all
  then show ?case by simp
next
  case (2 xs ys)
  let ?g = "\<lambda>p. encode_basestring_ascii (fst p) @ '': '' @ json_dumps_sorted (snd p)"
  let ?xs = "sort_key fst xs" and ?ys = "sort_key fst ys"
  have dx: "distinct (map fst xs)" and dy: "distinct (map fst ys)"
    and wx: "\<And>p. p \<in> set xs \<Longrightarrow> wf_json (snd p)" and wy: "\<And>p. p \<in> set ys \<Longrightarrow> wf_json (snd p)"
    using "2.prems"(1,2) by (simp_all add: list_all_iff)
  have len: "length xs = length ys" using "2.prems"(3) by simp
  have look: "\<exists>w. map_of ys (fst p) = Some w \<and> same_structure (snd p) w" if "p \<in> set xs" for p
    using "2.prems"(3) that by (auto simp: list_all_iff split: option.splits)
  have "map_of ys (fst p) \<noteq> None" if "p \<in> set xs" for p
    using look [OF that] by auto
  then have keys: "fst ` set xs = fst ` set ys"
    by (rule same_keys [OF dx dy len])
  have mk: "map fst ?xs = map fst ?ys" by (rule sorted_fields_keys [OF dx dy keys])
  have "map ?g ?xs = map ?g ?ys"
  proof (rule nth_equalityI)
    show "length (map ?g ?xs) = length (map ?g ?ys)" using len by simp
  next
    fix i assume "i < length (map ?g ?xs)"
    then have i: "i < length xs" "i < length ys" using len by simp_all
    let ?p = "?xs ! i" and ?q = "?ys ! i"
    have p: "?p \<in> set xs" and q: "?q \<in> set ys"
      using i nth_mem [of i ?xs] nth_mem [of i ?ys] by simp_all
    have "map fst ?xs ! i = map fst ?ys ! i" using mk by simp
    then have fq: "fst ?q = fst ?p" using i by simp
    obtain w where w: "map_of ys (fst ?p) = Some w" "same_structure (snd ?p) w"
      using look [OF p] by blast
    have "map_of ys (fst ?q) = Some (snd ?q)" using dy q by simp
    then have "w = snd ?q" using w(1) fq by simp
    then have "json_dumps_sorted (snd ?p) = json_dumps_sorted (snd ?q)"
      using "2.IH" [OF p w(1)] wx [OF p] wy [OF q] w(2) by simp
    then show "map ?g ?xs ! i = map ?g ?ys ! i" using i fq by simp
  qed
  then show ?case by simp
qed simp_all

lemma cache_key_same_structure:
  assumes "wf_json (JObj a)" "wf_json (JObj b)" "same_structure (JObj a) (JObj b)"
  shows "cache_key H a = cache_key H b"
  unfolding cache_key_def
  using json_dumps_sorted_same_structure [OF assms] by simp

subsection \<open>A call of process\_request\<close>

lemma process_request_cache_hit:
  assumes "response_cache s (cache_key H data) = Some cached"
  shows "process_request H rid now later s data =
           (Inr cached, s\<lparr>log := log s @ [(LOG_INFO, ''Cache hit for request '' @ rid)]\<rparr>)"
  using assms by (simp add: process_request_def process_request_begin_def Let_def)

lemma response_cache_update_agent [simp]:
  "response_cache (update_agent an f s) = response_cache s"
  by (simp add: update_agent_def split: option.splits)

lemma log_update_agent [simp]: "log (update_agent an f s) = log s"
  by (simp add: update_agent_def split: option.splits)

lemma process_request_resume_stores:
  assumes "generate_response now s (agent_name p) (request_data p) = Inr resp"
  shows "fst (process_request_resume now s p) = Inr resp"
    and "response_cache (snd (process_request_resume now s p)) =
           (response_cache s)(suspended_cache_key p \<mapsto> resp)"
    and "log (snd (process_request_resume now s p)) =
           log s @ [(LOG_INFO, ''Request '' @ request_id p @ '' processed by '' @ agent_name p)]"
  using assms by (simp_all add: process_request_resume_def Let_def)

lemma process_request_resume_result:
  assumes "fst (process_request_resume now s p) = Inr resp"
  shows "generate_response now s (agent_name p) (request_data p) = Inr resp"
  using assms by (simp add: process_request_resume_def Let_def split: sum.splits)

lemma process_request_stores:
  assumes "fst (process_request H rid now later s data) = Inr r"
  shows "response_cache (snd (process_request H rid now later s data)) (cache_key H data) = Some r"
proof (cases "response_cache s (cache_key H data)")
  case (Some cached)
  then show ?thesis using assms by (simp add: process_request_cache_hit)
next
  case None
  show ?thesis
  proof (cases "process_request_begin H rid now s data")
    case (Pair out s1)
    show ?thesis
    proof (cases out)
      case (Inl outcome)
      then have "outcome = Inr r" using assms Pair by (simp add: process_request_def)
      then show ?thesis
        using None Pair Inl
        by (auto simp: process_request_begin_def Let_def split: sum.splits option.splits)
    next
      case (Inr p)
      have key: "suspended_cache_key p = cache_key H data"
        using None Pair Inr
        by (auto simp: process_request_begin_def Let_def split: sum.splits option.splits)
      have res: "process_request H rid now later s data = process_request_resume later s1 p"
        using Pair Inr by (simp add: process_request_def)
      have "generate_response later s1 (agent_name p) (request_data p) = Inr r"
        using assms res process_request_resume_result by simp
      from process_request_resume_stores(2) [OF this] show ?thesis
        by (simp add: res key)
    qed
  qed
qed

lemma agents_api_ready:
  "agents api_ready =
     [(''claude'', \<lparr>name = ''claude'', agent_type = ''strategic_reasoning'', agent_status = ONLINE,
         last_heartbeat = 0, processed_requests = 0, error_count = 0,
         capabilities = [''analysis'', ''reasoning'', ''code_generation'', ''strategic_planning'']\<rparr>),
      (''gemini'', \<lparr>name = ''gemini'', agent_type = ''creative_synthesis'', agent_status = ONLINE,
         last_heartbeat = 0, processed_requests = 0, error_count = 0,
         capabilities = [''creativity'', ''multimodal'', ''synthesis'', ''innovation'']\<rparr>),
      (''perplexity'', \<lparr>name = ''perplexity'', agent_type = ''knowledge_integration'',
         agent_status = ONLINE, last_heartbeat = 0, processed_requests = 0, error_count = 0,
         capabilities = [''search'', ''fact_checking'', ''knowledge_synthesis'', ''research'']\<rparr>)]"
  by (simp add: api_ready_def initialize_agents_def TrinityAIOrchestrator_init_def
      agent_configs_def Let_def)

lemma cache_api_ready: "response_cache api_ready = Map.empty"
  by (simp add: api_ready_def initialize_agents_def TrinityAIOrchestrator_init_def
      agent_configs_def Let_def)

lemma route_example: "route_request example_request = Inr ''claude''"
  by (simp add: route_request_def example_request_def lower_def lower_char_def Let_def)

lemma first_begun_eval:
  "first_begun = (Inr (example_suspended ''r1''),
     update_agent ''claude'' (\<lambda>a. a\<lparr>agent_status := PROCESSING, last_heartbeat := 2\<rparr>) api_ready)"
  by (simp add: first_begun_def process_request_begin_def Let_def cache_api_ready
      route_example agents_api_ready example_suspended_def)

lemma example_done:
  "process_request (\<lambda>x. x) ''r1'' 2 4 api_ready example_request =
     process_request_resume 4 (snd first_begun) (example_suspended ''r1'')"
  using first_begun_eval by (simp add: process_request_def first_begun_def)

lemma generate_example:
  "map_of (agents s) ''claude'' = Some a \<Longrightarrow> capabilities a = cs \<Longrightarrow>
   generate_response now s ''claude'' example_request =
     Inr ((example_response now)\<lparr>capabilities_used := take 2 cs\<rparr>)"
  by (simp add: generate_response_def prompt_of_def example_request_def example_response_def Let_def)

lemma example_first_response:
  "fst (process_request (\<lambda>x. x) ''r1'' 2 4 api_ready example_request) = Inr (example_response 4)"
proof -
  have g: "generate_response 4 (snd first_begun) ''claude'' example_request =
             Inr (example_response 4)"
    by (simp add: first_begun_eval update_agent_def agents_api_ready generate_response_def
        prompt_of_def example_request_def example_response_def Let_def)
  then show ?thesis
    by (simp add: example_done process_request_resume_def example_suspended_def Let_def)
qed

lemma second_begun_eval:
  "second_begun = (Inr (example_suspended ''r2''),
     update_agent ''claude'' (\<lambda>a. a\<lparr>agent_status := PROCESSING, last_heartbeat := 3\<rparr>)
       (snd first_begun))"
  by (simp add: second_begun_def first_begun_eval process_request_begin_def Let_def
      cache_api_ready route_example agents_api_ready example_suspended_def update_agent_def)

text \<open>
  Claim C10. When the cache holds an entry under the fingerprint of the request,
  \<^verbatim>\<open>process_request\<close> returns that entry and leaves the agents (status, processed\_requests
  and error\_count of every agent), the consciousness state (with its total\_processed
  counter) and the cache as they were.
\<close>

theorem cache_hit_leaves_metrics:
  assumes "response_cache s (cache_key H data) = Some cached"
  shows "fst (process_request H rid now later s data) = Inr cached \<and>
         agents (snd (process_request H rid now later s data)) = agents s \<and>
         consciousness_state (snd (process_request H rid now later s data)) =
           consciousness_state s \<and>
         response_cache (snd (process_request H rid now later s data)) = response_cache s"
  by (simp add: process_request_cache_hit [OF assms])

theorem cache_hit_leaves_metrics_witness:
  "response_cache (snd (process_request (\<lambda>x. x) ''r1'' 2 4 api_ready example_request))
     (cache_key (\<lambda>x. x) example_request) = Some (example_response 4) \<and>
   fst (process_request (\<lambda>x. x) ''r2'' 6 7
          (snd (process_request (\<lambda>x. x) ''r1'' 2 4 api_ready example_request)) example_request)
     = Inr (example_response 4)"
proof -
  let ?s = "snd (process_request (\<lambda>x. x) ''r1'' 2 4 api_ready example_request)"
  have g: "generate_response 4 (snd first_begun) ''claude'' example_request =
             Inr (example_response 4)"
    by (simp add: first_begun_eval update_agent_def agents_api_ready generate_response_def
        prompt_of_def example_request_def example_response_def Let_def)
  have h: "response_cache ?s (cache_key (\<lambda>x. x) example_request) = Some (example_response 4)"
    using g
    by (simp add: example_done process_request_resume_def example_suspended_def Let_def)
  show ?thesis
    using h cache_hit_leaves_metrics [OF h, of "''r2''" 6 7] by simp
qed

text \<open>
  Claim C7. Two request payloads that are structurally identical and differ only in the
  order of their fields have the same cache key; so once the first has been answered,
  the second is answered with the same response from the cache, and the call changes
  nothing but the log (one more record, the cache hit): no agent is touched.
\<close>

theorem reordered_request_served_from_cache:
  assumes "wf_json (JObj a)" and "wf_json (JObj b)" and "same_structure (JObj a) (JObj b)"
    and "fst (process_request H rid now later s a) = Inr r"
  shows "cache_key H a = cache_key H b \<and>
         process_request H rid' now' later' (snd (process_request H rid now later s a)) b =
           (Inr r,
            (snd (process_request H rid now later s a))
              \<lparr>log := log (snd (process_request H rid now later s a)) @
                       [(LOG_INFO, ''Cache hit for request '' @ rid')]\<rparr>)"
proof -
  have k: "cache_key H a = cache_key H b"
    by (rule cache_key_same_structure [OF assms(1-3)])
  have "response_cache (snd (process_request H rid now later s a)) (cache_key H b) = Some r"
    using process_request_stores [OF assms(4)] k by simp
  from process_request_cache_hit [OF this] k show ?thesis by simp
qed

theorem reordered_request_served_from_cache_witness:
  "wf_json (JObj example_request) \<and> wf_json (JObj example_request_reordered) \<and>
   same_structure (JObj example_request) (JObj example_request_reordered) \<and>
   fst (process_request (\<lambda>x. x) ''r1'' 2 4 api_ready example_request) = Inr (example_response 4) \<and>
   cache_key (\<lambda>x. x) example_request = cache_key (\<lambda>x. x) example_request_reordered \<and>
   fst (process_request (\<lambda>x. x) ''r2'' 6 7
          (snd (process_request (\<lambda>x. x) ''r1'' 2 4 api_ready example_request))
          example_request_reordered) = Inr (example_response 4)"
proof -
  have a: "wf_json (JObj example_request)" by (simp add: example_request_def)
  have b: "wf_json (JObj example_request_reordered)" by (simp add: example_request_reordered_def)
  have c: "same_structure (JObj example_request) (JObj example_request_reordered)"
    by (simp add: example_request_def example_request_reordered_def)
  note d = example_first_response
  show ?thesis
    using a b c d reordered_request_served_from_cache [OF a b c d, of "''r2''" 6 7]
    by simp
qed

text \<open>
  Claim C4, as the source has it: the store compares nothing and logs no inconsistency.
  Two requests for the same payload overlap (both begin before either resumes, so both
  miss the cache). The first stores its response; the second stores a different response
  (another time stamp) under the same key, replacing it, and the only record this
  logs is the INFO record that the request was processed. No record of the log has
  another level.
\<close>

theorem overlapping_requests_overwrite_silently:
  "fst first_begun = Inr (example_suspended ''r1'') \<and>
   fst second_begun = Inr (example_suspended ''r2'') \<and>
   response_cache (snd first_done) (cache_key (\<lambda>x. x) example_request) = Some (example_response 4) \<and>
   fst second_done = Inr (example_response 5) \<and>
   response_cache (snd second_done) (cache_key (\<lambda>x. x) example_request) = Some (example_response 5) \<and>
   example_response 4 \<noteq> example_response 5 \<and>
   log (snd second_done) = log (snd first_done) @ [(LOG_INFO, ''Request r2 processed by claude'')] \<and>
   map fst (log (snd second_done)) =
     [LOG_INFO, LOG_INFO, LOG_INFO, LOG_INFO, LOG_INFO, LOG_INFO, LOG_INFO]"
  by (simp add: first_begun_eval second_begun_eval first_done_def second_done_def
      process_request_resume_def generate_response_def update_agent_def agents_api_ready
      cache_api_ready example_suspended_def example_response_def prompt_of_def
      example_request_def api_ready_def initialize_agents_def TrinityAIOrchestrator_init_def
      agent_configs_def Let_def)

text \<open>
  Claim C4, amended: when the response has been generated, the store puts it under the
  fingerprint whatever the cache holds there (the newer response wins), and the call
  logs exactly one record, at level INFO, saying that the request was processed.
\<close>

theorem store_overwrites_without_warning:
  assumes "generate_response now s (agent_name p) (request_data p) = Inr resp"
  shows "fst (process_request_resume now s p) = Inr resp \<and>
         response_cache (snd (process_request_resume now s p)) =
           (response_cache s)(suspended_cache_key p \<mapsto> resp) \<and>
         log (snd (process_request_resume now s p)) =
           log s @ [(LOG_INFO, ''Request '' @ request_id p @ '' processed by '' @ agent_name p)]"
  using process_request_resume_stores [OF assms] by simp


theorem store_overwrites_without_warning_witness:
  "generate_response 5 (snd first_done) (agent_name (example_suspended ''r2''))
     (request_data (example_suspended ''r2'')) = Inr (example_response 5) \<and>
   response_cache (snd first_done) (suspended_cache_key (example_suspended ''r2'')) =
     Some (example_response 4) \<and>
   response_cache (snd (process_request_resume 5 (snd first_done) (example_suspended ''r2''))) =
     (response_cache (snd first_done))
       (suspended_cache_key (example_suspended ''r2'') \<mapsto> example_response 5)"
proof -
  have g: "generate_response 5 (snd first_done) (agent_name (example_suspended ''r2''))
             (request_data (example_suspended ''r2'')) = Inr (example_response 5)"
    by (simp add: first_begun_eval second_begun_eval first_done_def
        process_request_resume_def generate_response_def update_agent_def agents_api_ready
        example_suspended_def example_response_def prompt_of_def example_request_def Let_def)
  have c: "response_cache (snd first_done) (suspended_cache_key (example_suspended ''r2'')) =
             Some (example_response 4)"
    by (simp add: first_begun_eval second_begun_eval first_done_def
        process_request_resume_def generate_response_def update_agent_def agents_api_ready
        example_suspended_def example_response_def prompt_of_def example_request_def Let_def)
  show ?thesis
    using g c store_overwrites_without_warning [OF g] by simp
qed


end
